theory Spec2Isabelle
  imports Complex_Main "HOL-Library.Log_Nat"
begin

section \<open>Data model\<close>

text \<open>The operator enumeration \<^verbatim>\<open>Ops\<close> of prims.py, one tag per primitive.\<close>

datatype Ops =
    CONVERT_ELEMENT_TYPE
  | FULL | IOTA | UNIFORM
  | BROADCAST_IN_DIM | RESHAPE | SLICE | SQUEEZE | TRANSPOSE | VIEW
  | ABS | ACOS | ACOSH | ASIN | ATAN | ATANH | BITWISE_NOT | CEIL | COS | COSH
  | ERF | ERFC | EXP | EXPM1 | FLOOR | ISFINITE | RSQRT | SIN | TANH
  | LOG | LOG10 | LOG1P | LOG2
  | ADD | ATAN2 | BITWISE_AND | DIV | EQ | LT | MUL | POW | SUB
  | WHERE
  | AMAX | SUM | VAR
  | LINEAR | MATMUL
  | EMBEDDING

text \<open>
  Modelled from the spec: the element type tags of thunder.core.dtypes, a module outside
  prims.py. The spec speaks of tags that are boolean, exact, real or complex, and of a
  64-bit signed integer type. The first four tags are Python's number classes
  \<^verbatim>\<open>bool\<close>, \<^verbatim>\<open>int\<close>, \<^verbatim>\<open>float\<close>, \<^verbatim>\<open>complex\<close> (the "number types"), which
  prims.py uses as result types itself; the others are tensor dtypes.
\<close>

datatype eltype =
    py_bool | py_int | py_float | py_complex
  | bool8 | uint8 | int8 | int16 | int32 | int64
  | bfloat16 | float16 | float32 | float64
  | complex64 | complex128

text \<open>
  Python numbers. Float and complex payloads are idealised as real and complex numbers; no
  definition below computes with them beyond Python's truth test and the conversions
  between number classes, and the number handlers of the primitives (functions of
  \<^verbatim>\<open>math\<close> and \<^verbatim>\<open>operator\<close>) are parameters.
\<close>

datatype number = BoolV bool | IntV int | FloatV real | ComplexV complex

text \<open>
  Modelled from the spec: the proxies of proxies.py, a module outside prims.py. A tensor
  proxy carries its name, shape, device and dtype; a number proxy carries its name, its
  logical numeric type and a placeholder value. Proxy names are identified with the value
  of the trace's name counter that minted them.
\<close>

record TensorProxy =
  tname :: nat
  shape :: "int list"
  device :: string
  dtype :: eltype

record NumberProxy =
  nname :: nat
  python_type :: eltype
  nvalue :: number

text \<open>
  The values a primitive can be called with and can return: proxies, plain Python
  numbers, lists, tuples, strings and \<^verbatim>\<open>None\<close>.
\<close>

datatype pyobj =
    TensorP TensorProxy
  | NumberP NumberProxy
  | Num number
  | ListV "pyobj list"
  | TupleV "pyobj list"
  | StrV string
  | NoneV

text \<open>
  The frozen dataclass \<^verbatim>\<open>Symbol\<close>. Its \<^verbatim>\<open>__eq__\<close> is \<^verbatim>\<open>self is other\<close> and its
  \<^verbatim>\<open>__hash__\<close> is \<^verbatim>\<open>id(self)\<close>, so the object's identity is part of the model: the
  field \<open>sym_id\<close> is the address the object was allocated at.
\<close>

record Symbol =
  sym_id :: nat
  op :: Ops
  name :: string
  outputs :: "pyobj list"
  args :: "pyobj list"
  kwargs :: "(string \<times> pyobj) list"



text \<open>
  Modelled from the spec: the trace of trace.py, a module outside prims.py, with its
  operations \<^verbatim>\<open>get_trace\<close>, \<^verbatim>\<open>make_proxy_name\<close> and \<^verbatim>\<open>add_symbol\<close> (defined below).
  A trace holds the ordered sequence of recorded Symbols and a monotonic name counter;
  \<^verbatim>\<open>make_proxy_name\<close> returns a fresh identifier and advances the counter;
  \<^verbatim>\<open>add_symbol\<close> appends; \<^verbatim>\<open>get_trace\<close> fails when no trace is active.
\<close>

record trace =
  symbols :: "Symbol list"
  name_ctr :: nat

text \<open>
  The state a primitive call runs in: the active trace of the context, if any, and the
  next free object address (for the identity of the Symbols that get allocated).
\<close>

record state =
  active :: "trace option"
  next_id :: nat

text \<open>
  Errors. The first six are the kinds of the spec's taxonomy, for the failures the
  primitives raise themselves (\<^verbatim>\<open>utils.check\<close>, \<^verbatim>\<open>raise ValueError\<close>); a
  mismatch of devices or dtypes counts as a type error. The others are exceptions of the
  Python interpreter and its library: \<open>PyTypeError\<close> is the \<^verbatim>\<open>TypeError\<close> of a
  \<^verbatim>\<open>raise\<close> whose operand is not an exception ("exceptions must derive from
  BaseException") and of a conversion such as \<^verbatim>\<open>int(1j)\<close>.
\<close>

datatype error =
    TypeErr | ShapeErr | BoundsErr | UnsupportedErr | ContextErr | RegistryErr
  | PyTypeError | PyAttributeError | PyOverflowError | PyZeroDivisionError | PyValueError

type_synonym 'a comp = "state \<Rightarrow> (error + 'a) \<times> state"

definition get_trace :: "state \<Rightarrow> error + trace" where
  "get_trace st = (case active st of None \<Rightarrow> Inl ContextErr | Some tr \<Rightarrow> Inr tr)"

definition make_proxy_name :: "nat comp" where
  "make_proxy_name st =
     (case get_trace st of
        Inl e \<Rightarrow> (Inl e, st)
      | Inr tr \<Rightarrow> (Inr (name_ctr tr), st\<lparr>active := Some (tr\<lparr>name_ctr := Suc (name_ctr tr)\<rparr>)\<rparr>))"

definition add_symbol :: "trace \<Rightarrow> Symbol \<Rightarrow> trace" where
  "add_symbol tr symbol = tr\<lparr>symbols := symbols tr @ [symbol]\<rparr>"

section \<open>Symbol construction and the recording wrapper\<close>

text \<open>\<^verbatim>\<open>isinstance(x, Sequence)\<close>: lists, tuples and strings are sequences.\<close>

fun is_Sequence :: "pyobj \<Rightarrow> bool" where
  "is_Sequence (ListV xs) = True"
| "is_Sequence (TupleV xs) = True"
| "is_Sequence (StrV s) = True"
| "is_Sequence _ = False"

text \<open>The elements \<^verbatim>\<open>tuple(x)\<close> iterates over; a string yields its characters.\<close>

fun tuple_items :: "pyobj \<Rightarrow> pyobj list" where
  "tuple_items (ListV xs) = xs"
| "tuple_items (TupleV xs) = xs"
| "tuple_items (StrV s) = map (\<lambda>c. StrV [c]) s"
| "tuple_items x = []"

definition make_symbol ::
  "Ops \<Rightarrow> string \<Rightarrow> pyobj \<Rightarrow> pyobj list \<Rightarrow> (string \<times> pyobj) list \<Rightarrow> state \<Rightarrow> Symbol \<times> state" where
  "make_symbol id' name' outputs' args' kwargs' st =
     (let symbol_outputs = (if is_Sequence outputs' then tuple_items outputs' else [outputs']);
          symbol_args = map (\<lambda>a. if is_Sequence a then TupleV (tuple_items a) else a) args'
      in (\<lparr>sym_id = next_id st, op = id', name = name', outputs = symbol_outputs,
            args = symbol_args, kwargs = kwargs'\<rparr>,
          st\<lparr>next_id := Suc (next_id st)\<rparr>))"

type_synonym meta_fn = "pyobj list \<Rightarrow> (string \<times> pyobj) list \<Rightarrow> pyobj comp"

definition eval_meta_and_record_symbol_fn ::
  "meta_fn \<Rightarrow> Ops \<Rightarrow> string \<Rightarrow> pyobj list \<Rightarrow> (string \<times> pyobj) list \<Rightarrow> pyobj comp" where
  "eval_meta_and_record_symbol_fn meta id' name' args' kwargs' st =
     (case meta args' kwargs' st of
        (Inl e, st1) \<Rightarrow> (Inl e, st1)
      | (Inr result, st1) \<Rightarrow>
          (case make_symbol id' name' result args' kwargs' st1 of
             (symbol, st2) \<Rightarrow>
               (case get_trace st2 of
                  Inl e \<Rightarrow> (Inl e, st2)
                | Inr tr \<Rightarrow> (Inr result, st2\<lparr>active := Some (add_symbol tr symbol)\<rparr>))))"

text \<open>
  \<^verbatim>\<open>make_prim\<close> registers the meta function and the name under the operator (two
  module-level dictionaries filled while the module is imported, not modelled) and returns
  the recording wrapper.
\<close>

definition make_prim :: "Ops \<Rightarrow> string \<Rightarrow> meta_fn \<Rightarrow> pyobj list \<Rightarrow> (string \<times> pyobj) list \<Rightarrow> pyobj comp" where
  "make_prim id' name' meta = eval_meta_and_record_symbol_fn meta id' name'"

section \<open>Helpers of thunder.core.utils\<close>

text \<open>
  Modelled from the spec: the helpers of utils.py, a module outside prims.py. The dtype
  predicates are "consumed as pure predicates"; \<^verbatim>\<open>check_same_dtype\<close> is the
  "same dtype" resolver that returns a shared number type and a shared tensor dtype (mixed
  element types are rejected, not promoted); \<^verbatim>\<open>to_dtype\<close> resolves the element type
  of a tensor or a number and fails with a type error on anything else; a tensor proxy's
  \<^verbatim>\<open>true_dtype\<close> is derived from its dtype.
\<close>

fun is_boolean_dtype :: "eltype \<Rightarrow> bool" where
  "is_boolean_dtype py_bool = True"
| "is_boolean_dtype bool8 = True"
| "is_boolean_dtype _ = False"

fun is_complex_dtype :: "eltype \<Rightarrow> bool" where
  "is_complex_dtype py_complex = True"
| "is_complex_dtype complex64 = True"
| "is_complex_dtype complex128 = True"
| "is_complex_dtype _ = False"

fun corresponding_real_dtype :: "eltype \<Rightarrow> eltype" where
  "corresponding_real_dtype py_complex = py_float"
| "corresponding_real_dtype complex64 = float32"
| "corresponding_real_dtype complex128 = float64"
| "corresponding_real_dtype t = t"

fun dtype_to_numbertype :: "eltype \<Rightarrow> eltype" where
  "dtype_to_numbertype py_bool = py_bool"
| "dtype_to_numbertype bool8 = py_bool"
| "dtype_to_numbertype py_int = py_int"
| "dtype_to_numbertype uint8 = py_int"
| "dtype_to_numbertype int8 = py_int"
| "dtype_to_numbertype int16 = py_int"
| "dtype_to_numbertype int32 = py_int"
| "dtype_to_numbertype int64 = py_int"
| "dtype_to_numbertype py_float = py_float"
| "dtype_to_numbertype bfloat16 = py_float"
| "dtype_to_numbertype float16 = py_float"
| "dtype_to_numbertype float32 = py_float"
| "dtype_to_numbertype float64 = py_float"
| "dtype_to_numbertype py_complex = py_complex"
| "dtype_to_numbertype complex64 = py_complex"
| "dtype_to_numbertype complex128 = py_complex"

definition true_dtype :: "TensorProxy \<Rightarrow> eltype" where
  "true_dtype t = dtype t"

definition ndim :: "TensorProxy \<Rightarrow> nat" where
  "ndim t = length (shape t)"

definition numel :: "TensorProxy \<Rightarrow> int" where
  "numel t = prod_list (shape t)"

fun number_type :: "number \<Rightarrow> eltype" where
  "number_type (BoolV b) = py_bool"
| "number_type (IntV i) = py_int"
| "number_type (FloatV r) = py_float"
| "number_type (ComplexV c) = py_complex"

text \<open>
  \<^verbatim>\<open>isinstance(a, Number)\<close> holds of number proxies and of plain Python numbers;
  \<open>numberlike\<close> gives the numeric type and the value (\<^verbatim>\<open>get_numberlike_value\<close>) of
  such an object.
\<close>

fun numberlike :: "pyobj \<Rightarrow> (eltype \<times> number) option" where
  "numberlike (NumberP p) = Some (python_type p, nvalue p)"
| "numberlike (Num n) = Some (number_type n, n)"
| "numberlike _ = None"

fun is_TensorProxy :: "pyobj \<Rightarrow> bool" where
  "is_TensorProxy (TensorP t) = True"
| "is_TensorProxy _ = False"

definition is_Number :: "pyobj \<Rightarrow> bool" where
  "is_Number a = (numberlike a \<noteq> None)"

fun to_dtype :: "pyobj \<Rightarrow> error + eltype" where
  "to_dtype (TensorP t) = Inr (true_dtype t)"
| "to_dtype (NumberP p) = Inr (python_type p)"
| "to_dtype (Num n) = Inr (number_type n)"
| "to_dtype _ = Inl TypeErr"

fun tensor_dtype_of :: "pyobj \<Rightarrow> eltype option" where
  "tensor_dtype_of (TensorP t) = Some (dtype t)"
| "tensor_dtype_of _ = None"

definition all_same :: "eltype list \<Rightarrow> bool" where
  "all_same ts = list_all (\<lambda>t. t = hd ts) ts"

definition check_same_dtype :: "pyobj \<Rightarrow> pyobj \<Rightarrow> error + (eltype option \<times> eltype option)" where
  "check_same_dtype a b =
     (let numbertypes = List.map_filter (\<lambda>x. map_option fst (numberlike x)) [a, b];
          dtypes = List.map_filter tensor_dtype_of [a, b]
      in if all_same numbertypes \<and> all_same dtypes
            \<and> (numbertypes = [] \<or> dtypes = [] \<or> hd numbertypes = dtype_to_numbertype (hd dtypes))
         then Inr (if numbertypes = [] then None else Some (hd numbertypes),
                   if dtypes = [] then None else Some (hd dtypes))
         else Inl TypeErr)"

definition same_shape :: "int list \<Rightarrow> int list \<Rightarrow> bool" where
  "same_shape a b = (a = b)"

definition check_valid_shape :: "int list \<Rightarrow> bool" where
  "check_valid_shape shape' = list_all (\<lambda>l. 0 \<le> l) shape'"

text \<open>
  A valid permutation of \<open>0..rank-1\<close> covers each index exactly once (the caller compares
  the lengths).
\<close>

definition check_valid_permutation :: "nat \<Rightarrow> int list \<Rightarrow> bool" where
  "check_valid_permutation rank perm =
     (length perm = rank \<and> list_all (\<lambda>i. count_list perm (int i) = 1) [0..<rank])"

section \<open>Proxy construction\<close>

text \<open>
  Modelled from the spec: the constructor \<^verbatim>\<open>TensorProxy(name, shape, device, dtype,
  tensor)\<close> copies from \<^verbatim>\<open>tensor\<close> the metadata that is not given explicitly, and
  \<^verbatim>\<open>proxy(value, name)\<close> makes a number proxy of the value's own numeric type.
\<close>

definition TensorProxy_like :: "TensorProxy \<Rightarrow> nat \<Rightarrow> int list option \<Rightarrow> eltype option \<Rightarrow> TensorProxy" where
  "TensorProxy_like tensor name' shape' dtype' =
     \<lparr>tname = name',
      shape = (case shape' of None \<Rightarrow> shape tensor | Some s \<Rightarrow> s),
      device = device tensor,
      dtype = (case dtype' of None \<Rightarrow> dtype tensor | Some d \<Rightarrow> d)\<rparr>"

definition TensorProxy_new :: "nat \<Rightarrow> int list \<Rightarrow> string \<Rightarrow> eltype \<Rightarrow> TensorProxy" where
  "TensorProxy_new name' shape' device' dtype' =
     \<lparr>tname = name', shape = shape', device = device', dtype = dtype'\<rparr>"

definition proxy :: "number \<Rightarrow> nat \<Rightarrow> pyobj" where
  "proxy x name' = NumberP \<lparr>nname = name', python_type = number_type x, nvalue = x\<rparr>"

section \<open>Elementwise primitives\<close>

datatype ELEMENTWISE_PRIM_TYPE_PROMOTION_KIND = DEFAULT | ALWAYS_BOOL | COMPLEX_TO_FLOAT

text \<open>
  The enumeration has exactly the three members the function tests for, so the final
  \<^verbatim>\<open>raise AssertionError\<close> of the source is not reachable and the function is total.
\<close>

fun prim_type_promotion :: "eltype \<Rightarrow> ELEMENTWISE_PRIM_TYPE_PROMOTION_KIND \<Rightarrow> eltype" where
  "prim_type_promotion typ DEFAULT = typ"
| "prim_type_promotion typ ALWAYS_BOOL = py_bool"
| "prim_type_promotion typ COMPLEX_TO_FLOAT =
     (if is_complex_dtype typ then corresponding_real_dtype typ else typ)"

text \<open>Python's truth test of a number: \<^verbatim>\<open>bool(x)\<close>.\<close>

fun truthy :: "number \<Rightarrow> bool" where
  "truthy (BoolV b) = b"
| "truthy (IntV i) = (i \<noteq> 0)"
| "truthy (FloatV r) = (r \<noteq> 0)"
| "truthy (ComplexV c) = (c \<noteq> 0)"

text \<open>
  \<^verbatim>\<open>result_type(value)\<close>: a result type that is a Python number class is called on the
  value. \<^verbatim>\<open>int\<close> truncates a float towards zero; \<^verbatim>\<open>int\<close> and \<^verbatim>\<open>float\<close> refuse a
  complex number. In the number case the result type derives from a number class; a tensor
  dtype is not a constructor of Python numbers.
\<close>

fun call_type :: "eltype \<Rightarrow> number \<Rightarrow> error + number" where
  "call_type py_bool v = Inr (BoolV (truthy v))"
| "call_type py_int (BoolV b) = Inr (IntV (if b then 1 else 0))"
| "call_type py_int (IntV i) = Inr (IntV i)"
| "call_type py_int (FloatV r) = Inr (IntV (if 0 \<le> r then \<lfloor>r\<rfloor> else \<lceil>r\<rceil>))"
| "call_type py_int (ComplexV c) = Inl PyTypeError"
| "call_type py_float (BoolV b) = Inr (FloatV (if b then 1 else 0))"
| "call_type py_float (IntV i) = Inr (FloatV (of_int i))"
| "call_type py_float (FloatV r) = Inr (FloatV r)"
| "call_type py_float (ComplexV c) = Inl PyTypeError"
| "call_type py_complex (BoolV b) = Inr (ComplexV (if b then 1 else 0))"
| "call_type py_complex (IntV i) = Inr (ComplexV (of_int i))"
| "call_type py_complex (FloatV r) = Inr (ComplexV (of_real r))"
| "call_type py_complex (ComplexV c) = Inr (ComplexV c)"
| "call_type t v = Inl PyTypeError"

text \<open>
  Both elementwise meta functions mint the name of the result first and validate the rest
  afterwards. What follows the minting touches no state; it is written as a function of
  the minted name (\<open>elementwise_unary_result\<close>, \<open>elementwise_binary_result\<close>).
\<close>

definition elementwise_unary_result ::
  "pyobj \<Rightarrow> eltype \<Rightarrow> (number \<Rightarrow> error + number) option \<Rightarrow> nat \<Rightarrow> error + pyobj" where
  "elementwise_unary_result a result_dtype number_handler proxy_name =
     (case a of
        TensorP t \<Rightarrow> Inr (TensorP (TensorProxy_like t proxy_name None (Some result_dtype)))
      | _ \<Rightarrow>
         (case numberlike a of
            None \<Rightarrow> Inl TypeErr
          | Some (ty, va) \<Rightarrow>
             (case number_handler of
                None \<Rightarrow> Inl UnsupportedErr
              | Some handler \<Rightarrow>
                 (case handler va of
                    Inl e \<Rightarrow> Inl e
                  | Inr v \<Rightarrow>
                     (case call_type result_dtype v of
                        Inl e \<Rightarrow> Inl e
                      | Inr result \<Rightarrow> Inr (proxy result proxy_name))))))"

definition elementwise_unary_meta ::
  "pyobj \<Rightarrow> string \<Rightarrow> ELEMENTWISE_PRIM_TYPE_PROMOTION_KIND \<Rightarrow> (number \<Rightarrow> error + number) option \<Rightarrow> pyobj comp" where
  "elementwise_unary_meta a name' type_promotion_kind number_handler st =
     (case to_dtype a of
        Inl e \<Rightarrow> (Inl e, st)
      | Inr input_dtype \<Rightarrow>
          (let result_dtype = prim_type_promotion input_dtype type_promotion_kind in
           case make_proxy_name st of
             (Inl e, st1) \<Rightarrow> (Inl e, st1)
           | (Inr proxy_name, st1) \<Rightarrow>
               (elementwise_unary_result a result_dtype number_handler proxy_name, st1)))"

definition elementwise_binary_result ::
  "pyobj \<Rightarrow> pyobj \<Rightarrow> eltype \<Rightarrow> (number \<Rightarrow> number \<Rightarrow> error + number) option \<Rightarrow> nat \<Rightarrow> error + pyobj" where
  "elementwise_binary_result a b result_type number_handler proxy_name =
     (case (a, b) of
        (TensorP ta, TensorP tb) \<Rightarrow>
          (if \<not> same_shape (shape ta) (shape tb) then Inl ShapeErr
           else Inr (TensorP (TensorProxy_like ta proxy_name None (Some result_type))))
      | _ \<Rightarrow>
         (case (numberlike a, numberlike b) of
            (Some (tya, va), Some (tyb, vb)) \<Rightarrow>
              (case number_handler of
                 None \<Rightarrow> Inl UnsupportedErr
               | Some handler \<Rightarrow>
                  (case handler va vb of
                     Inl e \<Rightarrow> Inl e
                   | Inr v \<Rightarrow>
                      (case call_type result_type v of
                         Inl e \<Rightarrow> Inl e
                       | Inr result \<Rightarrow> Inr (proxy result proxy_name))))
          | _ \<Rightarrow>
             (case (if is_TensorProxy a then a else b) of
                TensorP tensor \<Rightarrow> Inr (TensorP (TensorProxy_like tensor proxy_name None (Some result_type)))
              | _ \<Rightarrow> Inl TypeErr)))"

definition elementwise_binary_meta ::
  "pyobj \<Rightarrow> pyobj \<Rightarrow> string \<Rightarrow> ELEMENTWISE_PRIM_TYPE_PROMOTION_KIND \<Rightarrow>
   (number \<Rightarrow> number \<Rightarrow> error + number) option \<Rightarrow> pyobj comp" where
  "elementwise_binary_meta a b name' type_promotion_kind number_handler st =
     (if \<not> (is_TensorProxy a \<or> is_Number a) then (Inl TypeErr, st)
      else if \<not> (is_TensorProxy b \<or> is_Number b) then (Inl TypeErr, st)
      else
       (case check_same_dtype a b of
          Inl e \<Rightarrow> (Inl e, st)
        | Inr (numbertype, dtype') \<Rightarrow>
           (case (if dtype' \<noteq> None then dtype' else numbertype) of
              None \<Rightarrow> (Inl TypeErr, st)
            | Some input_type \<Rightarrow>
               (let result_type = prim_type_promotion input_type type_promotion_kind in
                case make_proxy_name st of
                  (Inl e, st1) \<Rightarrow> (Inl e, st1)
                | (Inr proxy_name, st1) \<Rightarrow>
                    (elementwise_binary_result a b result_type number_handler proxy_name, st1)))))"

text \<open>
  A call \<^verbatim>\<open>prim(x, y)\<close> binds \<open>x\<close> and \<open>y\<close> to the parameters of the meta function
  and hands the same objects to the wrapper as \<^verbatim>\<open>args\<close>; the definitions of the
  primitives write both uses out. \<^verbatim>\<open>partial\<close> fixes the name, the promotion kind and the
  number handler.
\<close>

definition unary_prim ::
  "Ops \<Rightarrow> string \<Rightarrow> ELEMENTWISE_PRIM_TYPE_PROMOTION_KIND \<Rightarrow> (number \<Rightarrow> error + number) option \<Rightarrow>
   pyobj \<Rightarrow> pyobj comp" where
  "unary_prim id' name' kind number_handler a =
     make_prim id' name' (\<lambda>args' kwargs'. elementwise_unary_meta a name' kind number_handler) [a] []"

definition binary_prim ::
  "Ops \<Rightarrow> string \<Rightarrow> ELEMENTWISE_PRIM_TYPE_PROMOTION_KIND \<Rightarrow>
   (number \<Rightarrow> number \<Rightarrow> error + number) option \<Rightarrow> pyobj \<Rightarrow> pyobj \<Rightarrow> pyobj comp" where
  "binary_prim id' name' kind number_handler a b =
     make_prim id' name' (\<lambda>args' kwargs'. elementwise_binary_meta a b name' kind number_handler) [a, b] []"

text \<open>
  The handlers \<^verbatim>\<open>math.isfinite\<close>, \<^verbatim>\<open>_rsqrt_number\<close>, \<^verbatim>\<open>operator.add\<close> and so on
  compute on Python floats; they are parameters of the primitives that use them.
\<close>

definition isfinite :: "(number \<Rightarrow> error + number) \<Rightarrow> pyobj \<Rightarrow> pyobj comp" where
  "isfinite math_isfinite = unary_prim ISFINITE ''isfinite'' ALWAYS_BOOL (Some math_isfinite)"

definition rsqrt :: "(number \<Rightarrow> error + number) \<Rightarrow> pyobj \<Rightarrow> pyobj comp" where
  "rsqrt rsqrt_number = unary_prim RSQRT ''rsqrt'' ALWAYS_BOOL (Some rsqrt_number)"

definition add :: "(number \<Rightarrow> number \<Rightarrow> error + number) \<Rightarrow> pyobj \<Rightarrow> pyobj \<Rightarrow> pyobj comp" where
  "add operator_add = binary_prim ADD ''add'' DEFAULT (Some operator_add)"

definition atan2 :: "pyobj \<Rightarrow> pyobj \<Rightarrow> pyobj comp" where
  "atan2 = binary_prim ATAN2 ''atan2'' DEFAULT None"

definition bitwise_and :: "pyobj \<Rightarrow> pyobj \<Rightarrow> pyobj comp" where
  "bitwise_and = binary_prim BITWISE_AND ''bitwise_and'' DEFAULT None"

definition div_prim :: "(number \<Rightarrow> number \<Rightarrow> error + number) \<Rightarrow> pyobj \<Rightarrow> pyobj \<Rightarrow> pyobj comp" where
  "div_prim div_number_handler = binary_prim DIV ''div'' DEFAULT (Some div_number_handler)"

definition eq :: "(number \<Rightarrow> number \<Rightarrow> error + number) \<Rightarrow> pyobj \<Rightarrow> pyobj \<Rightarrow> pyobj comp" where
  "eq operator_eq = binary_prim EQ ''eq'' ALWAYS_BOOL (Some operator_eq)"

definition lt :: "(number \<Rightarrow> number \<Rightarrow> error + number) \<Rightarrow> pyobj \<Rightarrow> pyobj \<Rightarrow> pyobj comp" where
  "lt operator_lt = binary_prim LT ''lt'' ALWAYS_BOOL (Some operator_lt)"

definition mul :: "(number \<Rightarrow> number \<Rightarrow> error + number) \<Rightarrow> pyobj \<Rightarrow> pyobj \<Rightarrow> pyobj comp" where
  "mul operator_mul = binary_prim MUL ''mul'' DEFAULT (Some operator_mul)"

definition pow :: "(number \<Rightarrow> number \<Rightarrow> error + number) \<Rightarrow> pyobj \<Rightarrow> pyobj \<Rightarrow> pyobj comp" where
  "pow operator_pow = binary_prim POW ''pow'' DEFAULT (Some operator_pow)"

definition sub :: "(number \<Rightarrow> number \<Rightarrow> error + number) \<Rightarrow> pyobj \<Rightarrow> pyobj \<Rightarrow> pyobj comp" where
  "sub operator_sub = binary_prim SUB ''sub'' DEFAULT (Some operator_sub)"

section \<open>Shape primitives\<close>

definition int_tuple :: "int list \<Rightarrow> pyobj" where
  "int_tuple xs = TupleV (map (\<lambda>i. Num (IntV i)) xs)"

definition reshape_meta :: "pyobj \<Rightarrow> int list \<Rightarrow> pyobj comp" where
  "reshape_meta a shape' st =
     (case a of
        TensorP t \<Rightarrow>
          (if \<not> check_valid_shape shape' then (Inl ShapeErr, st)
           else
            (let numel' = foldl (*) 1 shape' in
             if numel' \<noteq> numel t then (Inl ShapeErr, st)
             else
              (case make_proxy_name st of
                 (Inl e, st1) \<Rightarrow> (Inl e, st1)
               | (Inr proxy_name, st1) \<Rightarrow>
                   (Inr (TensorP (TensorProxy_like t proxy_name (Some shape') None)), st1))))
      | _ \<Rightarrow> (Inl TypeErr, st))"

definition reshape :: "pyobj \<Rightarrow> int list \<Rightarrow> pyobj comp" where
  "reshape a shape' =
     make_prim RESHAPE ''reshape'' (\<lambda>args' kwargs'. reshape_meta a shape') [a, int_tuple shape'] []"


text \<open>
  \<^verbatim>\<open>math.floor(n / d)\<close> on Python integers \<open>0 \<le> n\<close> and \<open>1 \<le> d\<close>, the operands that
  \<^verbatim>\<open>slice_meta\<close> reaches it with. The true division of two integers is the IEEE double
  nearest to the exact quotient: 53 bits of precision, ties to the even mantissa, gradual
  underflow below \<open>2 ^ - 1022\<close>, and an \<^verbatim>\<open>OverflowError\<close> when the rounded value is
  \<open>2 ^ 1024\<close> or more. With \<open>e\<close> the binary exponent of the quotient (at least
  \<open>- 1022\<close>) and \<open>s = 52 - e\<close>, the double is \<open>m / 2 ^ s\<close> for the integer \<open>m\<close>
  nearest to the quotient times \<open>2 ^ s\<close>; \<^verbatim>\<open>math.floor\<close> of a double is exact.
\<close>

definition round_half_even :: "int \<Rightarrow> int \<Rightarrow> int" where
  "round_half_even num den =
     (let q = num div den; r = num mod den
      in if 2 * r < den then q else if den < 2 * r then q + 1 else if even q then q else q + 1)"

definition binary_exponent :: "int \<Rightarrow> int \<Rightarrow> int" where
  "binary_exponent n d =
     (let k = bitlen n - bitlen d
      in if (if 0 \<le> k then d * 2 ^ nat k \<le> n else d \<le> n * 2 ^ nat (- k)) then k else k - 1)"

definition floor_truediv :: "int \<Rightarrow> int \<Rightarrow> error + int" where
  "floor_truediv n d =
     (if n = 0 then Inr 0
      else
       (let s = 52 - max (binary_exponent n d) (- 1022);
            m = (if 0 \<le> s then round_half_even (n * 2 ^ nat s) d
                 else round_half_even n (d * 2 ^ nat (- s)))
        in if 0 \<le> s then Inr (m div 2 ^ nat s)
           else if 2 ^ 1024 \<le> m * 2 ^ nat (- s) then Inl PyOverflowError
           else Inr (m * 2 ^ nat (- s))))"

text \<open>
  The loop of \<^verbatim>\<open>slice_meta\<close> over \<^verbatim>\<open>zip(start_indices, end_indices, a.shape,
  strides)\<close>, which stops with the shortest of the four.
\<close>

fun slice_dims :: "int list \<Rightarrow> int list \<Rightarrow> int list \<Rightarrow> int list \<Rightarrow> error + int list" where
  "slice_dims (start # starts) (stop # stops) (shape' # shapes) (stride # strides) =
     (if \<not> 0 \<le> start then Inl BoundsErr
      else if \<not> start \<le> shape' then Inl BoundsErr
      else if \<not> start \<le> stop then Inl BoundsErr
      else if \<not> stop \<le> shape' then Inl BoundsErr
      else if \<not> 1 \<le> stride then Inl BoundsErr
      else
       (case floor_truediv (stop - start) stride of
          Inl e \<Rightarrow> Inl e
        | Inr l \<Rightarrow>
           (case slice_dims starts stops shapes strides of
              Inl e \<Rightarrow> Inl e
            | Inr new_shape \<Rightarrow> Inr (l # new_shape))))"
| "slice_dims starts stops shapes strides = Inr []"

text \<open>
  The source reads \<^verbatim>\<open>a.ndim\<close> for the default strides before it checks that \<open>a\<close> is a
  tensor proxy.
\<close>

definition slice_meta :: "pyobj \<Rightarrow> int list \<Rightarrow> int list \<Rightarrow> int list option \<Rightarrow> pyobj comp" where
  "slice_meta a start_indices end_indices strides st =
     (case a of
        TensorP t \<Rightarrow>
          (let strides' = (case strides of None \<Rightarrow> replicate (ndim t) 1 | Some s \<Rightarrow> s) in
           if \<not> (ndim t = length start_indices \<and> length start_indices = length end_indices
                  \<and> length end_indices = length strides')
           then (Inl BoundsErr, st)
           else
            (case slice_dims start_indices end_indices (shape t) strides' of
               Inl e \<Rightarrow> (Inl e, st)
             | Inr new_shape \<Rightarrow>
                (case make_proxy_name st of
                   (Inl e, st1) \<Rightarrow> (Inl e, st1)
                 | (Inr proxy_name, st1) \<Rightarrow>
                     (Inr (TensorP (TensorProxy_like t proxy_name (Some new_shape) None)), st1))))
      | _ \<Rightarrow> (if strides = None then (Inl PyAttributeError, st) else (Inl TypeErr, st)))"

definition slice_prim :: "pyobj \<Rightarrow> int list \<Rightarrow> int list \<Rightarrow> int list option \<Rightarrow> pyobj comp" where
  "slice_prim a start_indices end_indices strides =
     make_prim SLICE ''slice'' (\<lambda>args' kwargs'. slice_meta a start_indices end_indices strides)
       ([a, int_tuple start_indices, int_tuple end_indices]
          @ (case strides of None \<Rightarrow> [] | Some s \<Rightarrow> [int_tuple s])) []"

text \<open>
  After the permutation has been checked every entry is an index of \<^verbatim>\<open>a.shape\<close>, and
  \<^verbatim>\<open>new_shape[idx] = a.shape[dim]\<close> fills every position of the new shape.
\<close>

definition transpose_meta :: "pyobj \<Rightarrow> int list \<Rightarrow> pyobj comp" where
  "transpose_meta a permutation st =
     (case a of
        TensorP t \<Rightarrow>
          (if ndim t \<noteq> length permutation then (Inl ShapeErr, st)
           else if \<not> check_valid_permutation (ndim t) permutation then (Inl ShapeErr, st)
           else
            (let new_shape = map (\<lambda>dim. shape t ! nat dim) permutation in
             case make_proxy_name st of
               (Inl e, st1) \<Rightarrow> (Inl e, st1)
             | (Inr proxy_name, st1) \<Rightarrow>
                 (Inr (TensorP (TensorProxy_like t proxy_name (Some new_shape) None)), st1)))
      | _ \<Rightarrow> (Inl TypeErr, st))"

definition transpose_prim :: "pyobj \<Rightarrow> int list \<Rightarrow> pyobj comp" where
  "transpose_prim a permutation =
     make_prim TRANSPOSE ''transpose'' (\<lambda>args' kwargs'. transpose_meta a permutation)
       [a, int_tuple permutation] []"

section \<open>Matmul and embedding\<close>

text \<open>
  Both meta functions execute \<^verbatim>\<open>raise NotImplemented\<close>. \<^verbatim>\<open>NotImplemented\<close> is the
  constant that binary special methods return, not the exception class
  \<^verbatim>\<open>NotImplementedError\<close>; raising it makes Python 3 raise \<^verbatim>\<open>TypeError\<close>.
\<close>

definition matmul_meta :: "pyobj \<Rightarrow> pyobj \<Rightarrow> pyobj comp" where
  "matmul_meta a b st =
     (case (a, b) of
        (TensorP ta, TensorP tb) \<Rightarrow>
          (if ndim ta < 2 \<or> ndim tb < 2 then (Inl PyTypeError, st)
           else if device ta \<noteq> device tb then (Inl TypeErr, st)
           else if dtype ta \<noteq> dtype tb then (Inl TypeErr, st)
           else if \<not> same_shape (take (ndim ta - 2) (shape ta)) (take (ndim tb - 2) (shape tb))
             then (Inl ShapeErr, st)
           else if last (shape ta) \<noteq> shape tb ! (ndim tb - 2) then (Inl ShapeErr, st)
           else
            (let shape' = take (ndim ta - 2) (shape ta) @ [shape ta ! (ndim ta - 2)] @ [last (shape tb)] in
             case make_proxy_name st of
               (Inl e, st1) \<Rightarrow> (Inl e, st1)
             | (Inr proxy_name, st1) \<Rightarrow>
                 (Inr (TensorP (TensorProxy_new proxy_name shape' (device ta) (dtype ta))), st1)))
      | _ \<Rightarrow> (Inl TypeErr, st))"

definition matmul :: "pyobj \<Rightarrow> pyobj \<Rightarrow> pyobj comp" where
  "matmul a b = make_prim MATMUL ''matmul'' (\<lambda>args' kwargs'. matmul_meta a b) [a, b] []"

text \<open>
  \<^verbatim>\<open>embedding_meta\<close> reads the attributes of \<open>a\<close> and \<open>weight\<close> without a type check:
  both are tensor proxies. Of its optional parameters only \<^verbatim>\<open>max_norm\<close> is used.
\<close>

definition embedding_meta :: "TensorProxy \<Rightarrow> TensorProxy \<Rightarrow> number option \<Rightarrow> pyobj comp" where
  "embedding_meta a weight max_norm st =
     (if max_norm \<noteq> None then (Inl PyTypeError, st)
      else if dtype a \<noteq> int64 then (Inl TypeErr, st)
      else if ndim weight \<noteq> 2 then (Inl ShapeErr, st)
      else
       (let shape' = shape a @ [shape weight ! 1] in
        case make_proxy_name st of
          (Inl e, st1) \<Rightarrow> (Inl e, st1)
        | (Inr proxy_name, st1) \<Rightarrow>
            (Inr (TensorP (TensorProxy_new proxy_name shape' (device weight) (dtype weight))), st1)))"

definition embedding :: "TensorProxy \<Rightarrow> TensorProxy \<Rightarrow> number option \<Rightarrow> pyobj comp" where
  "embedding a weight max_norm =
     make_prim EMBEDDING ''embedding'' (\<lambda>args' kwargs'. embedding_meta a weight max_norm)
       [TensorP a, TensorP weight]
       (case max_norm of None \<Rightarrow> [] | Some v \<Rightarrow> [(''max_norm'', Num v)])"

section \<open>Notions used to state the properties\<close>

text \<open>
  What a meta function may do to the state: it allocates no Symbol and leaves the recorded
  Symbols of the active trace alone; it may advance the name counter. A trace is neither
  activated nor deactivated.
\<close>

definition name_minting_step :: "state \<Rightarrow> state \<Rightarrow> bool" where
  "name_minting_step st st' =
     (next_id st' = next_id st \<and>
      (case active st of
         None \<Rightarrow> active st' = None
       | Some tr \<Rightarrow>
          (case active st' of
             None \<Rightarrow> False
           | Some tr' \<Rightarrow> symbols tr' = symbols tr \<and> name_ctr tr \<le> name_ctr tr')))"

definition mints_names_only :: "'a comp \<Rightarrow> bool" where
  "mints_names_only m = (\<forall>st. name_minting_step st (snd (m st)))"

text \<open>
  The state after one name has been minted: the name counter of the active trace is
  advanced by exactly one and nothing else differs. A meta function mints at most once
  when every run of it leaves the state as it was or as it is after one minting.
\<close>

definition name_counter_advanced :: "state \<Rightarrow> state" where
  "name_counter_advanced st =
     (case active st of
        None \<Rightarrow> st
      | Some tr \<Rightarrow> st\<lparr>active := Some (tr\<lparr>name_ctr := Suc (name_ctr tr)\<rparr>)\<rparr>)"

definition mints_at_most_once :: "'a comp \<Rightarrow> bool" where
  "mints_at_most_once m = (\<forall>st. snd (m st) = st \<or> snd (m st) = name_counter_advanced st)"

text \<open>
  The inverse of a permutation \<open>p\<close> of \<open>0..rank-1\<close>, in the words of the spec: the
  permutation that sends \<open>p ! i\<close> back to \<open>i\<close>.
\<close>

fun index_of :: "int list \<Rightarrow> int \<Rightarrow> nat" where
  "index_of [] x = 0"
| "index_of (y # ys) x = (if y = x then 0 else Suc (index_of ys x))"

definition inverse_permutation :: "int list \<Rightarrow> int list" where
  "inverse_permutation p = map (\<lambda>i. int (index_of p (int i))) [0..<length p]"

text \<open>
  A result is boolean-typed when it is a tensor proxy of a boolean dtype or a number proxy
  whose numeric type is \<^verbatim>\<open>bool\<close>.
\<close>

fun boolean_typed :: "pyobj \<Rightarrow> bool" where
  "boolean_typed (TensorP t) = is_boolean_dtype (dtype t)"
| "boolean_typed (NumberP p) = (python_type p = py_bool)"
| "boolean_typed x = False"

text \<open>
  The conditions and the result of \<^verbatim>\<open>slice\<close> in the words of the spec: the index
  sequences and the strides have one entry per dimension, in every dimension
  \<open>0 \<le> start \<le> shape\<close>, \<open>start \<le> stop \<le> shape\<close> and \<open>1 \<le> stride\<close>, and the new length
  of the dimension is \<open>(stop - start) div stride\<close>, rounded down. The strides default to 1
  per dimension.
\<close>

definition slice_in_bounds :: "int list \<Rightarrow> int list \<Rightarrow> int list \<Rightarrow> int list \<Rightarrow> bool" where
  "slice_in_bounds shape' starts stops strides =
     (length starts = length shape' \<and> length stops = length shape' \<and> length strides = length shape'
      \<and> list_all (\<lambda>i. 0 \<le> starts ! i \<and> starts ! i \<le> shape' ! i
                       \<and> starts ! i \<le> stops ! i \<and> stops ! i \<le> shape' ! i
                       \<and> 1 \<le> strides ! i) [0..<length shape'])"

definition slice_lengths :: "int list \<Rightarrow> int list \<Rightarrow> int list \<Rightarrow> int list" where
  "slice_lengths starts stops strides =
     map (\<lambda>i. (stops ! i - starts ! i) div strides ! i) [0..<length starts]"

definition strides_or_default :: "TensorProxy \<Rightarrow> int list option \<Rightarrow> int list" where
  "strides_or_default t strides = (case strides of None \<Rightarrow> replicate (ndim t) 1 | Some s \<Rightarrow> s)"

section \<open>Example inputs\<close>

text \<open>
  A recording context in which two names have been minted and nothing recorded yet, and
  tensor proxies that carry those names.
\<close>

definition ex_state :: state where
  "ex_state = \<lparr>active = Some \<lparr>symbols = [], name_ctr = 2\<rparr>, next_id = 0\<rparr>"

definition ex_tensor :: "nat \<Rightarrow> int list \<Rightarrow> eltype \<Rightarrow> TensorProxy" where
  "ex_tensor n s d = \<lparr>tname = n, shape = s, device = ''cpu'', dtype = d\<rparr>"

section \<open>Meta functions only mint names\<close>

lemma name_minting_step_refl: "name_minting_step st st"
  by (simp add: name_minting_step_def split: option.splits)

lemma name_minting_step_make_proxy_name:
  "name_minting_step st (snd (make_proxy_name st))"
  by (simp add: name_minting_step_def make_proxy_name_def get_trace_def split: option.splits)

lemma snd_mint:
  "snd (case make_proxy_name st of (Inl e, st1) \<Rightarrow> (Inl e, st1) | (Inr n, st1) \<Rightarrow> (f n, st1))
     = snd (make_proxy_name st)"
  by (simp split: prod.split sum.split)

lemma mints_names_onlyI:
  assumes "\<And>st. snd (m st) = st \<or> snd (m st) = snd (make_proxy_name st)"
  shows "mints_names_only m"
  unfolding mints_names_only_def
  using assms name_minting_step_make_proxy_name name_minting_step_refl by metis

lemma mints_names_only_reshape: "mints_names_only (reshape_meta a shape')"
  by (rule mints_names_onlyI)
    (simp add: reshape_meta_def Let_def split: pyobj.split sum.split prod.split)

lemma mints_names_only_transpose: "mints_names_only (transpose_meta a p)"
  by (rule mints_names_onlyI)
    (simp add: transpose_meta_def Let_def split: pyobj.split sum.split prod.split)

lemma mints_names_only_matmul: "mints_names_only (matmul_meta a b)"
  by (rule mints_names_onlyI)
    (simp add: matmul_meta_def Let_def split: pyobj.split sum.split prod.split)

lemma mints_names_only_embedding: "mints_names_only (embedding_meta a w mn)"
  by (rule mints_names_onlyI)
    (simp add: embedding_meta_def Let_def split: pyobj.split sum.split prod.split)

lemma mints_names_only_unary:
  "mints_names_only (elementwise_unary_meta a name' kind handler)"
  by (rule mints_names_onlyI)
    (simp add: elementwise_unary_meta_def Let_def split: sum.split prod.split)


lemma slice_nontensor:
  "\<not> is_TensorProxy a \<Longrightarrow> slice_meta a s e strides st =
      (if strides = None then (Inl PyAttributeError, st) else (Inl TypeErr, st))"
  by (cases a) (simp_all add: slice_meta_def)

lemma slice_tensor_eq:
  "slice_meta (TensorP t) s e strides st =
     (if \<not> (ndim t = length s \<and> length s = length e
              \<and> length e = length (case strides of None \<Rightarrow> replicate (ndim t) 1 | Some x \<Rightarrow> x))
      then (Inl BoundsErr, st)
      else (case slice_dims s e (shape t) (case strides of None \<Rightarrow> replicate (ndim t) 1 | Some x \<Rightarrow> x) of
               Inl e \<Rightarrow> (Inl e, st)
             | Inr new_shape \<Rightarrow>
                (case make_proxy_name st of
                   (Inl e, st1) \<Rightarrow> (Inl e, st1)
                 | (Inr proxy_name, st1) \<Rightarrow>
                     (Inr (TensorP (TensorProxy_like t proxy_name (Some new_shape) None)), st1))))"
  unfolding slice_meta_def Let_def by simp

lemma mints_names_only_slice: "mints_names_only (slice_meta a s e strides)"
proof (rule mints_names_onlyI)
  fix st
  show "snd (slice_meta a s e strides st) = st \<or> snd (slice_meta a s e strides st) = snd (make_proxy_name st)"
  proof (cases a)
    case (TensorP t)
    show ?thesis
      unfolding TensorP slice_tensor_eq
      by (simp only: snd_mint snd_conv split: if_split sum.split) simp
  qed (simp_all add: slice_nontensor)
qed

section \<open>The recording wrapper\<close>

lemma eval_meta_failure:
  assumes "meta args' kwargs' st = (Inl e, st1)"
  shows "eval_meta_and_record_symbol_fn meta id' name' args' kwargs' st = (Inl e, st1)"
  using assms by (simp add: eval_meta_and_record_symbol_fn_def)

lemma eval_meta_success:
  assumes "meta args' kwargs' st = (Inr result, st1)" and "active st1 = Some tr"
  shows "eval_meta_and_record_symbol_fn meta id' name' args' kwargs' st =
    (Inr result,
     st1\<lparr>next_id := Suc (next_id st1),
         active := Some (tr\<lparr>symbols := symbols tr @
           [\<lparr>sym_id = next_id st1, op = id', name = name',
             outputs = (if is_Sequence result then tuple_items result else [result]),
             args = map (\<lambda>a. if is_Sequence a then TupleV (tuple_items a) else a) args',
             kwargs = kwargs'\<rparr>]\<rparr>)\<rparr>)"
  using assms
  by (simp add: eval_meta_and_record_symbol_fn_def make_symbol_def get_trace_def add_symbol_def Let_def)

lemma eval_meta_no_trace:
  assumes "meta args' kwargs' st = (Inr result, st1)" and "active st1 = None"
  shows "eval_meta_and_record_symbol_fn meta id' name' args' kwargs' st =
    (Inl ContextErr, st1\<lparr>next_id := Suc (next_id st1)\<rparr>)"
  using assms
  by (simp add: eval_meta_and_record_symbol_fn_def make_symbol_def get_trace_def add_symbol_def Let_def)

text \<open>
  Claim C2. A primitive call whose meta function succeeds appends exactly one Symbol to the
  active trace. Its outputs are the meta function's result (a sequence result as the tuple
  of its elements, any other result as a one-element tuple), its args are the positional
  arguments of the call with every sequence argument turned into a tuple, its operator,
  name and kwargs are those of the call, and the call returns the result of the meta
  function itself.
\<close>

theorem successful_call_appends_one_symbol:
  assumes "mints_names_only (meta args' kwargs')"
      and "active st = Some tr0"
      and "fst (meta args' kwargs' st) = Inr result"
  shows "\<exists>tr symbol.
           fst (eval_meta_and_record_symbol_fn meta id' name' args' kwargs' st) = Inr result
         \<and> active (snd (eval_meta_and_record_symbol_fn meta id' name' args' kwargs' st)) = Some tr
         \<and> symbols tr = symbols tr0 @ [symbol]
         \<and> outputs symbol = (if is_Sequence result then tuple_items result else [result])
         \<and> args symbol = map (\<lambda>a. if is_Sequence a then TupleV (tuple_items a) else a) args'
         \<and> op symbol = id' \<and> name symbol = name' \<and> kwargs symbol = kwargs'"
proof -
  obtain st1 where m: "meta args' kwargs' st = (Inr result, st1)"
    using assms(3) by (cases "meta args' kwargs' st") auto
  have step: "name_minting_step st st1"
    using assms(1) m unfolding mints_names_only_def by (metis snd_conv)
  then obtain tr1 where tr1: "active st1 = Some tr1" "symbols tr1 = symbols tr0"
    using assms(2) by (auto simp: name_minting_step_def split: option.splits)
  show ?thesis
    unfolding eval_meta_success [where meta=meta and args'=args' and kwargs'=kwargs' and st=st, OF m tr1(1)]
    by (simp add: tr1(2))
qed



theorem successful_call_appends_one_symbol_witness:
  "\<exists>tr symbol.
      fst (eval_meta_and_record_symbol_fn
             (\<lambda>args' kwargs'. reshape_meta (TensorP (ex_tensor 0 [2, 3] float32)) [6])
             RESHAPE ''reshape'' [TensorP (ex_tensor 0 [2, 3] float32), ListV [Num (IntV 6)]] []
             ex_state)
        = Inr (TensorP (ex_tensor 2 [6] float32))
    \<and> active (snd (eval_meta_and_record_symbol_fn
             (\<lambda>args' kwargs'. reshape_meta (TensorP (ex_tensor 0 [2, 3] float32)) [6])
             RESHAPE ''reshape'' [TensorP (ex_tensor 0 [2, 3] float32), ListV [Num (IntV 6)]] []
             ex_state)) = Some tr
    \<and> symbols tr = [symbol]
    \<and> outputs symbol = [TensorP (ex_tensor 2 [6] float32)]
    \<and> args symbol = [TensorP (ex_tensor 0 [2, 3] float32), TupleV [Num (IntV 6)]]
    \<and> op symbol = RESHAPE \<and> name symbol = ''reshape'' \<and> kwargs symbol = []"
proof -
  let ?a = "TensorP (ex_tensor 0 [2, 3] float32)"
  let ?meta = "\<lambda>(args' :: pyobj list) (kwargs' :: (string \<times> pyobj) list). reshape_meta ?a [6]"
  let ?args = "[?a, ListV [Num (IntV 6)]]"
  have 1: "mints_names_only (?meta ?args [])"
    by (rule mints_names_only_reshape)
  have 2: "active ex_state = Some \<lparr>symbols = [], name_ctr = 2\<rparr>"
    by (simp add: ex_state_def)
  have 3: "fst (?meta ?args [] ex_state) = Inr (TensorP (ex_tensor 2 [6] float32))"
    by (simp add: reshape_meta_def check_valid_shape_def numel_def make_proxy_name_def get_trace_def
        TensorProxy_like_def ex_state_def ex_tensor_def)
  show ?thesis
    using successful_call_appends_one_symbol [where meta = ?meta and args' = ?args
        and kwargs' = "[]" and st = ex_state and id' = RESHAPE and name' = "''reshape''", OF 1 2 3]
    by simp
qed



section \<open>Properties of the elementwise primitives\<close>

lemma eval_meta_result:
  assumes "fst (eval_meta_and_record_symbol_fn meta id' name' args' kwargs' st) = Inr r"
  shows "fst (meta args' kwargs' st) = Inr r"
  using assms
  by (cases "meta args' kwargs' st")
    (auto simp: eval_meta_and_record_symbol_fn_def make_symbol_def get_trace_def Let_def
      split: sum.splits option.splits)

lemma binary_meta_tensors:
  assumes "dtype ta = dtype tb" and "active st = Some tr"
  shows "elementwise_binary_meta (TensorP ta) (TensorP tb) name' kind handler st =
    (if shape ta = shape tb
     then Inr (TensorP \<lparr>tname = name_ctr tr, shape = shape ta, device = device ta,
                        dtype = prim_type_promotion (dtype ta) kind\<rparr>)
     else Inl ShapeErr,
     st\<lparr>active := Some (tr\<lparr>name_ctr := Suc (name_ctr tr)\<rparr>)\<rparr>)"
  using assms
  by (simp add: elementwise_binary_meta_def elementwise_binary_result_def check_same_dtype_def
      all_same_def List.map_filter_simps make_proxy_name_def get_trace_def same_shape_def
      TensorProxy_like_def)

lemma unary_meta_tensor:
  assumes "active st = Some tr"
  shows "elementwise_unary_meta (TensorP t) name' kind handler st =
    (Inr (TensorP \<lparr>tname = name_ctr tr, shape = shape t, device = device t,
                    dtype = prim_type_promotion (dtype t) kind\<rparr>),
     st\<lparr>active := Some (tr\<lparr>name_ctr := Suc (name_ctr tr)\<rparr>)\<rparr>)"
  using assms
  by (simp add: elementwise_unary_meta_def elementwise_unary_result_def make_proxy_name_def
      get_trace_def TensorProxy_like_def true_dtype_def)

lemma unary_result_always_bool:
  assumes "elementwise_unary_result a py_bool handler n = Inr r"
  shows "boolean_typed r"
  using assms
  by (cases a)
    (auto simp: elementwise_unary_result_def TensorProxy_like_def proxy_def
      split: option.splits sum.splits)

lemma binary_result_always_bool:
  assumes "elementwise_binary_result a b py_bool handler n = Inr r"
  shows "boolean_typed r"
  using assms
  by (cases a; cases b)
    (auto simp: elementwise_binary_result_def TensorProxy_like_def proxy_def
      split: option.splits sum.splits if_splits)

lemma unary_meta_always_bool:
  assumes "fst (elementwise_unary_meta a name' ALWAYS_BOOL handler st) = Inr r"
  shows "boolean_typed r"
  using assms unary_result_always_bool
  by (auto simp: elementwise_unary_meta_def Let_def split: sum.splits prod.splits)

lemma binary_meta_always_bool:
  assumes "fst (elementwise_binary_meta a b name' ALWAYS_BOOL handler st) = Inr r"
  shows "boolean_typed r"
  using assms binary_result_always_bool
  by (auto simp: elementwise_binary_meta_def Let_def split: sum.splits prod.splits option.splits if_splits)

lemma unary_meta_number:
  assumes "numberlike a = Some (ty, v)" and "active st = Some tr"
  shows "elementwise_unary_meta a name' ALWAYS_BOOL (Some handler) st =
    (case handler v of
       Inl e \<Rightarrow> Inl e
     | Inr w \<Rightarrow> Inr (NumberP \<lparr>nname = name_ctr tr, python_type = py_bool, nvalue = BoolV (truthy w)\<rparr>),
     st\<lparr>active := Some (tr\<lparr>name_ctr := Suc (name_ctr tr)\<rparr>)\<rparr>)"
  using assms
  by (cases a)
    (simp_all add: elementwise_unary_meta_def elementwise_unary_result_def make_proxy_name_def
      get_trace_def proxy_def split: sum.split)

lemma binary_meta_numbers:
  assumes "numberlike a = Some (ty, va)" and "numberlike b = Some (ty, vb)"
    and "active st = Some tr"
  shows "elementwise_binary_meta a b name' ALWAYS_BOOL (Some handler) st =
    (case handler va vb of
       Inl e \<Rightarrow> Inl e
     | Inr w \<Rightarrow> Inr (NumberP \<lparr>nname = name_ctr tr, python_type = py_bool, nvalue = BoolV (truthy w)\<rparr>),
     st\<lparr>active := Some (tr\<lparr>name_ctr := Suc (name_ctr tr)\<rparr>)\<rparr>)"
  using assms
  by (cases a; cases b)
    (simp_all add: elementwise_binary_meta_def elementwise_binary_result_def check_same_dtype_def
      all_same_def List.map_filter_simps is_Number_def make_proxy_name_def
      get_trace_def proxy_def split: sum.split)

lemma fst_eval_meta:
  assumes "meta args' kwargs' st = (r, sta)" and "active sta \<noteq> None"
  shows "fst (eval_meta_and_record_symbol_fn meta id' name' args' kwargs' st) = r"
  using assms
  by (cases r)
    (auto simp: eval_meta_and_record_symbol_fn_def make_symbol_def get_trace_def Let_def)

lemma unary_prim_always_bool:
  assumes "fst (unary_prim id' name' ALWAYS_BOOL handler a st) = Inr r"
  shows "boolean_typed r"
  using assms unfolding unary_prim_def make_prim_def
  by (intro unary_meta_always_bool [of a name' handler st r]) (rule eval_meta_result)

lemma binary_prim_always_bool:
  assumes "fst (binary_prim id' name' ALWAYS_BOOL handler a b st) = Inr r"
  shows "boolean_typed r"
  using assms unfolding binary_prim_def make_prim_def
  by (intro binary_meta_always_bool [of a b name' handler st r]) (rule eval_meta_result)

lemma unary_prim_tensor:
  assumes "active st = Some tr"
  shows "fst (unary_prim id' name' kind handler (TensorP t) st) =
     Inr (TensorP \<lparr>tname = name_ctr tr, shape = shape t, device = device t,
                    dtype = prim_type_promotion (dtype t) kind\<rparr>)"
  unfolding unary_prim_def make_prim_def
  by (rule fst_eval_meta [where sta = "st\<lparr>active := Some (tr\<lparr>name_ctr := Suc (name_ctr tr)\<rparr>)\<rparr>"])
    (simp_all add: unary_meta_tensor [OF assms])

lemma unary_prim_number:
  assumes "numberlike a = Some (ty, v)" and "active st = Some tr"
  shows "fst (unary_prim id' name' ALWAYS_BOOL (Some handler) a st) =
    (case handler v of
       Inl e \<Rightarrow> Inl e
     | Inr w \<Rightarrow> Inr (NumberP \<lparr>nname = name_ctr tr, python_type = py_bool, nvalue = BoolV (truthy w)\<rparr>))"
  unfolding unary_prim_def make_prim_def
  by (rule fst_eval_meta [where sta = "st\<lparr>active := Some (tr\<lparr>name_ctr := Suc (name_ctr tr)\<rparr>)\<rparr>"])
    (simp_all add: unary_meta_number [OF assms])

lemma binary_prim_tensors:
  assumes "dtype ta = dtype tb" and "active st = Some tr"
  shows "fst (binary_prim id' name' kind handler (TensorP ta) (TensorP tb) st) =
    (if shape ta = shape tb
     then Inr (TensorP \<lparr>tname = name_ctr tr, shape = shape ta, device = device ta,
                        dtype = prim_type_promotion (dtype ta) kind\<rparr>)
     else Inl ShapeErr)"
  unfolding binary_prim_def make_prim_def
  by (rule fst_eval_meta [where sta = "st\<lparr>active := Some (tr\<lparr>name_ctr := Suc (name_ctr tr)\<rparr>)\<rparr>"])
    (simp_all add: binary_meta_tensors [OF assms])

lemma binary_prim_numbers:
  assumes "numberlike a = Some (ty, va)" and "numberlike b = Some (ty, vb)"
    and "active st = Some tr"
  shows "fst (binary_prim id' name' ALWAYS_BOOL (Some handler) a b st) =
    (case handler va vb of
       Inl e \<Rightarrow> Inl e
     | Inr w \<Rightarrow> Inr (NumberP \<lparr>nname = name_ctr tr, python_type = py_bool, nvalue = BoolV (truthy w)\<rparr>))"
  unfolding binary_prim_def make_prim_def
  by (rule fst_eval_meta [where sta = "st\<lparr>active := Some (tr\<lparr>name_ctr := Suc (name_ctr tr)\<rparr>)\<rparr>"])
    (simp_all add: binary_meta_numbers [OF assms])

text \<open>
  Claim C4. For tensor proxies \<open>a\<close> and \<open>b\<close> of one element type, in an active trace, an
  elementwise binary primitive (any operator, name, promotion kind and number handler)
  succeeds exactly when the shapes are equal; the result is then a tensor proxy of that
  shape with the promoted dtype, and otherwise the call fails with a shape error.
\<close>

theorem elementwise_binary_same_shape:
  assumes "dtype ta = dtype tb" and "active st = Some tr"
  shows "((\<exists>r. fst (binary_prim id' name' kind handler (TensorP ta) (TensorP tb) st) = Inr r)
            \<longleftrightarrow> shape ta = shape tb)
       \<and> fst (binary_prim id' name' kind handler (TensorP ta) (TensorP tb) st) =
           (if shape ta = shape tb
            then Inr (TensorP \<lparr>tname = name_ctr tr, shape = shape ta, device = device ta,
                               dtype = prim_type_promotion (dtype ta) kind\<rparr>)
            else Inl ShapeErr)"
  by (simp add: binary_prim_tensors [OF assms])

theorem elementwise_binary_same_shape_witness:
  "fst (atan2 (TensorP (ex_tensor 0 [2, 3] float32)) (TensorP (ex_tensor 1 [2, 3] float32)) ex_state)
     = Inr (TensorP (ex_tensor 2 [2, 3] float32))
   \<and> fst (bitwise_and (TensorP (ex_tensor 0 [2, 3] int32)) (TensorP (ex_tensor 1 [3, 2] int32)) ex_state)
     = Inl ShapeErr"
proof -
  have 1: "dtype (ex_tensor 0 [2, 3] float32) = dtype (ex_tensor 1 [2, 3] float32)"
    and 2: "dtype (ex_tensor 0 [2, 3] int32) = dtype (ex_tensor 1 [3, 2] int32)"
    and 3: "active ex_state = Some \<lparr>symbols = [], name_ctr = 2\<rparr>"
    by (simp_all add: ex_tensor_def ex_state_def)
  show ?thesis
    using elementwise_binary_same_shape [OF 1 3, of ATAN2 "''atan2''" DEFAULT None]
      elementwise_binary_same_shape [OF 2 3, of BITWISE_AND "''bitwise_and''" DEFAULT None]
    by (simp add: atan2_def bitwise_and_def ex_tensor_def)
qed

text \<open>
  Claim C5. \<^verbatim>\<open>isfinite\<close>, \<^verbatim>\<open>eq\<close> and \<^verbatim>\<open>lt\<close> are registered with the promotion kind
  \<^verbatim>\<open>ALWAYS_BOOL\<close>, which maps every input type to \<^verbatim>\<open>bool\<close>. Whatever they are called
  with, a result they return is boolean-typed. In an active trace they do return one for
  tensor inputs (of equal dtype and shape for the binary ones), a tensor proxy whose dtype
  is \<^verbatim>\<open>bool\<close>, and for number inputs (of one number type for the binary ones) on which
  the number handler returns, a number proxy whose numeric type is \<^verbatim>\<open>bool\<close>.
\<close>

theorem always_bool_primitives:
  "prim_type_promotion typ ALWAYS_BOOL = py_bool
   \<and> (fst (isfinite math_isfinite a st) = Inr r \<longrightarrow> boolean_typed r)
   \<and> (fst (eq operator_eq a b st) = Inr r \<longrightarrow> boolean_typed r)
   \<and> (fst (lt operator_lt a b st) = Inr r \<longrightarrow> boolean_typed r)
   \<and> (active st = Some tr \<longrightarrow>
        fst (isfinite math_isfinite (TensorP t) st) =
          Inr (TensorP \<lparr>tname = name_ctr tr, shape = shape t, device = device t, dtype = py_bool\<rparr>))
   \<and> (active st = Some tr \<and> dtype ta = dtype tb \<and> shape ta = shape tb \<longrightarrow>
        fst (eq operator_eq (TensorP ta) (TensorP tb) st) =
          Inr (TensorP \<lparr>tname = name_ctr tr, shape = shape ta, device = device ta, dtype = py_bool\<rparr>)
      \<and> fst (lt operator_lt (TensorP ta) (TensorP tb) st) =
          Inr (TensorP \<lparr>tname = name_ctr tr, shape = shape ta, device = device ta, dtype = py_bool\<rparr>))
   \<and> (active st = Some tr \<and> numberlike a = Some (ty, v) \<and> math_isfinite v = Inr w \<longrightarrow>
        fst (isfinite math_isfinite a st) =
          Inr (NumberP \<lparr>nname = name_ctr tr, python_type = py_bool, nvalue = BoolV (truthy w)\<rparr>))
   \<and> (active st = Some tr \<and> numberlike a = Some (ty, va) \<and> numberlike b = Some (ty, vb)
        \<and> operator_eq va vb = Inr w \<longrightarrow>
        fst (eq operator_eq a b st) =
          Inr (NumberP \<lparr>nname = name_ctr tr, python_type = py_bool, nvalue = BoolV (truthy w)\<rparr>))
   \<and> (active st = Some tr \<and> numberlike a = Some (ty, va) \<and> numberlike b = Some (ty, vb)
        \<and> operator_lt va vb = Inr w \<longrightarrow>
        fst (lt operator_lt a b st) =
          Inr (NumberP \<lparr>nname = name_ctr tr, python_type = py_bool, nvalue = BoolV (truthy w)\<rparr>))"
proof (intro conjI impI)
  show "prim_type_promotion typ ALWAYS_BOOL = py_bool" by simp
  show "boolean_typed r" if "fst (isfinite math_isfinite a st) = Inr r"
    using that unfolding isfinite_def by (rule unary_prim_always_bool)
  show "boolean_typed r" if "fst (eq operator_eq a b st) = Inr r"
    using that unfolding eq_def by (rule binary_prim_always_bool)
  show "boolean_typed r" if "fst (lt operator_lt a b st) = Inr r"
    using that unfolding lt_def by (rule binary_prim_always_bool)
  show "fst (isfinite math_isfinite (TensorP t) st) =
          Inr (TensorP \<lparr>tname = name_ctr tr, shape = shape t, device = device t, dtype = py_bool\<rparr>)"
    if "active st = Some tr"
    unfolding isfinite_def by (simp add: unary_prim_tensor [OF that])
  show "fst (eq operator_eq (TensorP ta) (TensorP tb) st) =
          Inr (TensorP \<lparr>tname = name_ctr tr, shape = shape ta, device = device ta, dtype = py_bool\<rparr>)"
    if "active st = Some tr \<and> dtype ta = dtype tb \<and> shape ta = shape tb"
    unfolding eq_def using that by (simp add: binary_prim_tensors)
  show "fst (lt operator_lt (TensorP ta) (TensorP tb) st) =
          Inr (TensorP \<lparr>tname = name_ctr tr, shape = shape ta, device = device ta, dtype = py_bool\<rparr>)"
    if "active st = Some tr \<and> dtype ta = dtype tb \<and> shape ta = shape tb"
    unfolding lt_def using that by (simp add: binary_prim_tensors)
  show "fst (isfinite math_isfinite a st) =
          Inr (NumberP \<lparr>nname = name_ctr tr, python_type = py_bool, nvalue = BoolV (truthy w)\<rparr>)"
    if "active st = Some tr \<and> numberlike a = Some (ty, v) \<and> math_isfinite v = Inr w"
    unfolding isfinite_def using that by (simp add: unary_prim_number)
  show "fst (eq operator_eq a b st) =
          Inr (NumberP \<lparr>nname = name_ctr tr, python_type = py_bool, nvalue = BoolV (truthy w)\<rparr>)"
    if "active st = Some tr \<and> numberlike a = Some (ty, va) \<and> numberlike b = Some (ty, vb)
        \<and> operator_eq va vb = Inr w"
    unfolding eq_def using that by (simp add: binary_prim_numbers)
  show "fst (lt operator_lt a b st) =
          Inr (NumberP \<lparr>nname = name_ctr tr, python_type = py_bool, nvalue = BoolV (truthy w)\<rparr>)"
    if "active st = Some tr \<and> numberlike a = Some (ty, va) \<and> numberlike b = Some (ty, vb)
        \<and> operator_lt va vb = Inr w"
    unfolding lt_def using that by (simp add: binary_prim_numbers)
qed

theorem always_bool_primitives_witness:
  "fst (isfinite (\<lambda>v. Inr (BoolV True)) (TensorP (ex_tensor 0 [2, 3] float32)) ex_state)
     = Inr (TensorP (ex_tensor 2 [2, 3] py_bool))
   \<and> boolean_typed (TensorP (ex_tensor 2 [2, 3] py_bool))
   \<and> fst (lt (\<lambda>x y. Inr (BoolV False)) (TensorP (ex_tensor 0 [4] int64)) (TensorP (ex_tensor 1 [4] int64))
        ex_state) = Inr (TensorP (ex_tensor 2 [4] py_bool))
   \<and> fst (eq (\<lambda>x y. Inr (BoolV (x = y))) (Num (IntV 3)) (Num (IntV 4)) ex_state)
     = Inr (NumberP \<lparr>nname = 2, python_type = py_bool, nvalue = BoolV False\<rparr>)
   \<and> boolean_typed (NumberP \<lparr>nname = 2, python_type = py_bool, nvalue = BoolV False\<rparr>)"
proof -
  have 3: "active ex_state = Some \<lparr>symbols = [], name_ctr = 2\<rparr>"
    by (simp add: ex_state_def)
  show ?thesis
    using always_bool_primitives [where st = ex_state and tr = "\<lparr>symbols = [], name_ctr = 2\<rparr>"
        and t = "ex_tensor 0 [2, 3] float32" and math_isfinite = "\<lambda>v. Inr (BoolV True)"
        and ta = "ex_tensor 0 [4] int64" and tb = "ex_tensor 1 [4] int64"
        and operator_lt = "\<lambda>x y. Inr (BoolV False)"
        and operator_eq = "\<lambda>x y. Inr (BoolV (x = y))"
        and a = "Num (IntV 3)" and b = "Num (IntV 4)" and ty = py_int and va = "IntV 3" and vb = "IntV 4"
        and w = "BoolV False"]
    by (simp add: 3 ex_tensor_def)
qed

text \<open>
  Claim C10. \<^verbatim>\<open>rsqrt\<close> is registered with the promotion kind \<^verbatim>\<open>ALWAYS_BOOL\<close>: a result
  it returns is boolean-typed, whatever the input. In an active trace, for a tensor proxy
  of any dtype it returns a tensor proxy of the same shape and device whose dtype is
  \<^verbatim>\<open>bool\<close>, and for a number on which \<^verbatim>\<open>_rsqrt_number\<close> returns, a number proxy whose
  numeric type is \<^verbatim>\<open>bool\<close>.
\<close>

theorem rsqrt_result_is_boolean:
  "(fst (rsqrt rsqrt_number a st) = Inr r \<longrightarrow> boolean_typed r)
   \<and> (active st = Some tr \<longrightarrow>
        fst (rsqrt rsqrt_number (TensorP t) st) =
          Inr (TensorP \<lparr>tname = name_ctr tr, shape = shape t, device = device t, dtype = py_bool\<rparr>))
   \<and> (active st = Some tr \<and> numberlike a = Some (ty, v) \<and> rsqrt_number v = Inr w \<longrightarrow>
        fst (rsqrt rsqrt_number a st) =
          Inr (NumberP \<lparr>nname = name_ctr tr, python_type = py_bool, nvalue = BoolV (truthy w)\<rparr>))"
proof (intro conjI impI)
  show "boolean_typed r" if "fst (rsqrt rsqrt_number a st) = Inr r"
    using that unfolding rsqrt_def by (rule unary_prim_always_bool)
  show "fst (rsqrt rsqrt_number (TensorP t) st) =
          Inr (TensorP \<lparr>tname = name_ctr tr, shape = shape t, device = device t, dtype = py_bool\<rparr>)"
    if "active st = Some tr"
    unfolding rsqrt_def by (simp add: unary_prim_tensor [OF that])
  show "fst (rsqrt rsqrt_number a st) =
          Inr (NumberP \<lparr>nname = name_ctr tr, python_type = py_bool, nvalue = BoolV (truthy w)\<rparr>)"
    if "active st = Some tr \<and> numberlike a = Some (ty, v) \<and> rsqrt_number v = Inr w"
    unfolding rsqrt_def using that by (simp add: unary_prim_number)
qed

theorem rsqrt_result_is_boolean_witness:
  "fst (rsqrt (\<lambda>v. Inr (FloatV (1 / 2))) (TensorP (ex_tensor 0 [2, 3] float32)) ex_state)
     = Inr (TensorP (ex_tensor 2 [2, 3] py_bool))
   \<and> fst (rsqrt (\<lambda>v. Inr (FloatV (1 / 2))) (Num (IntV 4)) ex_state)
     = Inr (NumberP \<lparr>nname = 2, python_type = py_bool, nvalue = BoolV True\<rparr>)
   \<and> boolean_typed (TensorP (ex_tensor 2 [2, 3] py_bool))"
proof -
  have 3: "active ex_state = Some \<lparr>symbols = [], name_ctr = 2\<rparr>"
    by (simp add: ex_state_def)
  show ?thesis
    using rsqrt_result_is_boolean [where st = ex_state and tr = "\<lparr>symbols = [], name_ctr = 2\<rparr>"
        and t = "ex_tensor 0 [2, 3] float32" and rsqrt_number = "\<lambda>v. Inr (FloatV (1 / 2))"
        and a = "Num (IntV 4)" and ty = py_int and v = "IntV 4" and w = "FloatV (1 / 2)"]
    by (simp add: 3 ex_tensor_def)
qed

section \<open>Properties of matmul and embedding\<close>

lemma matmul_meta_low_rank:
  assumes "ndim ta < 2 \<or> ndim tb < 2"
  shows "matmul_meta (TensorP ta) (TensorP tb) st = (Inl PyTypeError, st)"
  using assms by (simp add: matmul_meta_def)

lemma matmul_low_rank:
  assumes "ndim ta < 2 \<or> ndim tb < 2"
  shows "matmul (TensorP ta) (TensorP tb) st = (Inl PyTypeError, st)"
  by (simp add: matmul_def make_prim_def eval_meta_and_record_symbol_fn_def
      matmul_meta_low_rank [OF assms])

lemma embedding_max_norm:
  "embedding a weight (Some max_norm) st = (Inl PyTypeError, st)"
  by (simp add: embedding_def make_prim_def eval_meta_and_record_symbol_fn_def embedding_meta_def)

text \<open>
  Claim C9. \<^verbatim>\<open>matmul\<close> on an operand of rank below 2 and \<^verbatim>\<open>embedding\<close> with
  \<^verbatim>\<open>max_norm\<close> set both fail and record nothing, the state is as before the call (lemmas
  \<open>matmul_low_rank\<close> and \<open>embedding_max_norm\<close>). The exception, though, is not one that
  signals an unsupported feature: the statement \<^verbatim>\<open>raise NotImplemented\<close> raises
  \<^verbatim>\<open>TypeError\<close>. Here for a vector times a matrix and for \<^verbatim>\<open>max_norm=1.0\<close>.
\<close>

theorem unsupported_calls_raise_type_error:
  "matmul (TensorP (ex_tensor 0 [3] float32)) (TensorP (ex_tensor 1 [3, 4] float32)) ex_state
     = (Inl PyTypeError, ex_state)
   \<and> embedding (ex_tensor 0 [5] int64) (ex_tensor 1 [10, 4] float32) (Some (FloatV 1)) ex_state
     = (Inl PyTypeError, ex_state)
   \<and> PyTypeError \<noteq> UnsupportedErr"
  by (simp add: matmul_low_rank embedding_max_norm ndim_def ex_tensor_def)

section \<open>Properties of reshape\<close>

lemma foldl_times: "foldl (*) a xs = a * prod_list xs" for a :: int
  by (induction xs arbitrary: a) (simp_all add: mult.assoc)

lemma reshape_meta_tensor:
  assumes "active st = Some tr"
  shows "reshape_meta (TensorP t) s st =
    (if check_valid_shape s \<and> prod_list s = numel t
     then (Inr (TensorP \<lparr>tname = name_ctr tr, shape = s, device = device t, dtype = dtype t\<rparr>),
           st\<lparr>active := Some (tr\<lparr>name_ctr := Suc (name_ctr tr)\<rparr>)\<rparr>)
     else (Inl ShapeErr, st))"
  using assms
  by (simp add: reshape_meta_def foldl_times make_proxy_name_def get_trace_def TensorProxy_like_def)

lemma reshape_failure:
  assumes "active st = Some tr" and "\<not> (check_valid_shape s \<and> prod_list s = numel t)"
  shows "reshape (TensorP t) s st = (Inl ShapeErr, st)"
proof -
  have "reshape_meta (TensorP t) s st = (Inl ShapeErr, st)"
    unfolding reshape_meta_tensor [OF assms(1)] using assms(2) by auto
  then show ?thesis
    by (simp add: reshape_def make_prim_def eval_meta_and_record_symbol_fn_def)
qed

lemma reshape_success:
  assumes "active st = Some tr" and "check_valid_shape s" and "prod_list s = numel t"
  shows "\<exists>st1 tr1. reshape (TensorP t) s st =
      (Inr (TensorP \<lparr>tname = name_ctr tr, shape = s, device = device t, dtype = dtype t\<rparr>), st1)
    \<and> active st1 = Some tr1"
  using assms
  by (simp add: reshape_def make_prim_def eval_meta_and_record_symbol_fn_def reshape_meta_tensor
      make_symbol_def get_trace_def)

text \<open>
  Claim C6. In an active trace, \<^verbatim>\<open>reshape(a, s)\<close> on a tensor proxy succeeds exactly when
  \<open>s\<close> is a valid shape whose product is \<^verbatim>\<open>a.numel()\<close>. For such a target \<open>s1\<close>, and
  \<open>a\<close> a tensor proxy as the data model has it (a shape of non-negative lengths), reshaping
  the result back to \<^verbatim>\<open>a.shape\<close> succeeds and yields a proxy with the shape, dtype and
  device of \<open>a\<close>.
\<close>

theorem reshape_succeeds_iff_and_round_trip:
  assumes "active st = Some tr"
  shows "((\<exists>r. fst (reshape (TensorP t) s st) = Inr r)
            \<longleftrightarrow> check_valid_shape s \<and> prod_list s = numel t)
       \<and> (check_valid_shape s1 \<and> prod_list s1 = numel t \<and> check_valid_shape (shape t) \<longrightarrow>
            (\<exists>t1 st1 t2.
                reshape (TensorP t) s1 st = (Inr (TensorP t1), st1)
              \<and> shape t1 = s1
              \<and> fst (reshape (TensorP t1) (shape t) st1) = Inr (TensorP t2)
              \<and> shape t2 = shape t \<and> dtype t2 = dtype t \<and> device t2 = device t))"
proof (intro conjI impI)
  show "(\<exists>r. fst (reshape (TensorP t) s st) = Inr r) \<longleftrightarrow> check_valid_shape s \<and> prod_list s = numel t"
  proof (cases "check_valid_shape s \<and> prod_list s = numel t")
    case True
    then show ?thesis using reshape_success [OF assms, of s t] by auto
  next
    case False
    then show ?thesis using reshape_failure [OF assms False] by simp
  qed
next
  assume h: "check_valid_shape s1 \<and> prod_list s1 = numel t \<and> check_valid_shape (shape t)"
  define t1 where "t1 = \<lparr>tname = name_ctr tr, shape = s1, device = device t, dtype = dtype t\<rparr>"
  obtain st1 tr1 where 1: "reshape (TensorP t) s1 st = (Inr (TensorP t1), st1)"
    and 2: "active st1 = Some tr1"
    using reshape_success [OF assms, of s1 t] h unfolding t1_def by blast
  have n: "prod_list (shape t) = numel t1"
    using h by (simp add: numel_def t1_def)
  obtain st2 tr2 where 3: "reshape (TensorP t1) (shape t) st1 =
      (Inr (TensorP \<lparr>tname = name_ctr tr1, shape = shape t, device = device t1, dtype = dtype t1\<rparr>), st2)"
    using reshape_success [OF 2 _ n] h by blast
  show "\<exists>t1 st1 t2.
                reshape (TensorP t) s1 st = (Inr (TensorP t1), st1)
              \<and> shape t1 = s1
              \<and> fst (reshape (TensorP t1) (shape t) st1) = Inr (TensorP t2)
              \<and> shape t2 = shape t \<and> dtype t2 = dtype t \<and> device t2 = device t"
    using 1 3
    by (intro exI [of _ t1] exI [of _ st1]
        exI [of _ "\<lparr>tname = name_ctr tr1, shape = shape t, device = device t1, dtype = dtype t1\<rparr>"])
      (simp add: t1_def)
qed

theorem reshape_succeeds_iff_and_round_trip_witness:
  "(\<exists>r. fst (reshape (TensorP (ex_tensor 0 [2, 3] float32)) [3, 2] ex_state) = Inr r)
   \<and> fst (reshape (TensorP (ex_tensor 0 [2, 3] float32)) [4, 2] ex_state) = Inl ShapeErr
   \<and> (\<exists>t1 st1 t2.
         reshape (TensorP (ex_tensor 0 [2, 3] float32)) [6] ex_state = (Inr (TensorP t1), st1)
       \<and> shape t1 = [6]
       \<and> fst (reshape (TensorP t1) [2, 3] st1) = Inr (TensorP t2)
       \<and> shape t2 = [2, 3] \<and> dtype t2 = float32 \<and> device t2 = ''cpu'')"
proof -
  have a: "active ex_state = Some \<lparr>symbols = [], name_ctr = 2\<rparr>"
    by (simp add: ex_state_def)
  have b: "check_valid_shape [6] \<and> prod_list [6] = numel (ex_tensor 0 [2, 3] float32)
      \<and> check_valid_shape (shape (ex_tensor 0 [2, 3] float32))"
    by (simp add: check_valid_shape_def numel_def ex_tensor_def)
  have c: "check_valid_shape [3, 2] \<and> prod_list [3, 2] = numel (ex_tensor 0 [2, 3] float32)"
    by (simp add: check_valid_shape_def numel_def ex_tensor_def)
  have d: "fst (reshape (TensorP (ex_tensor 0 [2, 3] float32)) [4, 2] ex_state) = Inl ShapeErr"
    by (simp add: reshape_failure [OF a] numel_def ex_tensor_def)
  show ?thesis
    using reshape_succeeds_iff_and_round_trip [OF a, of "ex_tensor 0 [2, 3] float32" "[3, 2]" "[6]"] b c d
    by (simp add: ex_tensor_def)
qed

section \<open>Properties of transpose\<close>

lemma count_list_distinct:
  "distinct xs \<Longrightarrow> x \<in> set xs \<Longrightarrow> count_list xs x = 1"
  by (induction xs) (auto simp: count_list_0_iff)

lemma valid_permutation_iff:
  "check_valid_permutation n p \<longleftrightarrow> length p = n \<and> distinct p \<and> set p = int ` {0..<n}"
proof
  assume v: "check_valid_permutation n p"
  then have len: "length p = n" and cnt: "\<And>i. i < n \<Longrightarrow> count_list p (int i) = 1"
    by (auto simp: check_valid_permutation_def list_all_iff)
  have sub: "int ` {0..<n} \<subseteq> set p"
  proof
    fix x assume "x \<in> int ` {0..<n}"
    then obtain i where "x = int i" "i < n" by auto
    then have "count_list p x \<noteq> 0" using cnt by simp
    then show "x \<in> set p" by (simp add: count_list_0_iff)
  qed
  have "card (int ` {0..<n}) = n" by (simp add: card_image)
  moreover have "card (int ` {0..<n}) \<le> card (set p)" using sub by (simp add: card_mono)
  moreover have "card (set p) \<le> n" using len card_length [of p] by simp
  ultimately have c: "card (set p) = n" "card (int ` {0..<n}) = card (set p)" by simp_all
  have "int ` {0..<n} = set p" using sub c(2) by (simp add: card_subset_eq)
  moreover have "distinct p" using c(1) len by (simp add: card_distinct)
  ultimately show "length p = n \<and> distinct p \<and> set p = int ` {0..<n}" using len by simp
next
  assume "length p = n \<and> distinct p \<and> set p = int ` {0..<n}"
  then show "check_valid_permutation n p"
    by (auto simp: check_valid_permutation_def list_all_iff count_list_distinct)
qed

lemma index_of_member:
  "x \<in> set p \<Longrightarrow> index_of p x < length p \<and> p ! index_of p x = x"
  by (induction p) auto

lemma inverse_permutation_valid:
  assumes "check_valid_permutation n p"
  shows "check_valid_permutation n (inverse_permutation p)"
proof -
  from assms have len: "length p = n" and dist: "distinct p" and set: "set p = int ` {0..<n}"
    by (simp_all add: valid_permutation_iff)
  let ?f = "\<lambda>i. int (index_of p (int i))"
  have mem: "\<And>i. i < n \<Longrightarrow> int i \<in> set p" using set by simp
  have inj: "inj_on ?f {0..<n}"
  proof (rule inj_onI)
    fix i j assume i: "i \<in> {0..<n}" and j: "j \<in> {0..<n}" and e: "?f i = ?f j"
    then have k: "index_of p (int i) = index_of p (int j)" by simp
    have "int i = p ! index_of p (int i)"
      using i mem index_of_member by simp
    also have "\<dots> = p ! index_of p (int j)"
      by (simp only: k)
    also have "\<dots> = int j"
      using j mem index_of_member by simp
    finally show "i = j" by (simp only: of_nat_eq_iff)
  qed
  have d: "distinct (inverse_permutation p)"
    unfolding inverse_permutation_def len by (simp add: distinct_map inj)
  have l: "length (inverse_permutation p) = n"
    by (simp add: inverse_permutation_def len)
  have sub: "set (inverse_permutation p) \<subseteq> int ` {0..<n}"
  proof
    fix x assume "x \<in> set (inverse_permutation p)"
    then obtain i where i: "i < n" and x: "x = ?f i"
      by (auto simp: inverse_permutation_def len)
    have "index_of p (int i) < n" using index_of_member [OF mem [OF i]] len by simp
    then show "x \<in> int ` {0..<n}" using x by simp
  qed
  have "card (set (inverse_permutation p)) = n" using d l by (simp add: distinct_card)
  moreover have "card (int ` {0..<n}) = n" by (simp add: card_image)
  ultimately have "set (inverse_permutation p) = int ` {0..<n}"
    using sub by (simp add: card_subset_eq)
  with d l show ?thesis by (simp add: valid_permutation_iff)
qed

lemma transpose_inverse_shape:
  assumes "check_valid_permutation n p" and "length s = n"
  shows "map (\<lambda>dim. map (\<lambda>dim. s ! nat dim) p ! nat dim) (inverse_permutation p) = s"
proof (rule nth_equalityI)
  from assms have len: "length p = n" and set: "set p = int ` {0..<n}"
    by (simp_all add: valid_permutation_iff)
  show "length (map (\<lambda>dim. map (\<lambda>dim. s ! nat dim) p ! nat dim) (inverse_permutation p)) = length s"
    by (simp add: inverse_permutation_def len assms(2))
  fix i assume "i < length (map (\<lambda>dim. map (\<lambda>dim. s ! nat dim) p ! nat dim) (inverse_permutation p))"
  then have i: "i < n" by (simp add: inverse_permutation_def len)
  then have "int i \<in> set p" using set by simp
  then have j: "index_of p (int i) < length p" "p ! index_of p (int i) = int i"
    using index_of_member by simp_all
  show "map (\<lambda>dim. map (\<lambda>dim. s ! nat dim) p ! nat dim) (inverse_permutation p) ! i = s ! i"
    using i j by (simp add: inverse_permutation_def len)
qed

lemma transpose_success:
  assumes "active st = Some tr" and "check_valid_permutation (ndim t) p"
  shows "\<exists>st1 tr1. transpose_prim (TensorP t) p st =
      (Inr (TensorP \<lparr>tname = name_ctr tr, shape = map (\<lambda>dim. shape t ! nat dim) p,
                      device = device t, dtype = dtype t\<rparr>), st1)
    \<and> active st1 = Some tr1"
proof -
  have "length p = ndim t" using assms(2) by (simp add: check_valid_permutation_def)
  then show ?thesis
    using assms
    by (simp add: transpose_prim_def make_prim_def eval_meta_and_record_symbol_fn_def
        transpose_meta_def make_proxy_name_def make_symbol_def get_trace_def TensorProxy_like_def)
qed

text \<open>
  Claim C7. In an active trace, for a tensor proxy \<open>a\<close> and a valid permutation \<open>p\<close> of
  \<open>0..rank-1\<close>, \<^verbatim>\<open>transpose(a, p)\<close> yields a proxy whose shape is the shape of \<open>a\<close>
  reordered by \<open>p\<close> (dimension \<open>i\<close> of the result is dimension \<open>p ! i\<close> of \<open>a\<close>), and
  transposing that proxy by the inverse permutation yields a proxy with the shape of \<open>a\<close>.
\<close>

theorem transpose_shape_and_inverse:
  assumes "active st = Some tr" and "check_valid_permutation (ndim t) p"
  shows "\<exists>t1 st1 t2.
            transpose_prim (TensorP t) p st = (Inr (TensorP t1), st1)
          \<and> shape t1 = map (\<lambda>dim. shape t ! nat dim) p
          \<and> fst (transpose_prim (TensorP t1) (inverse_permutation p) st1) = Inr (TensorP t2)
          \<and> shape t2 = shape t"
proof -
  define t1 where "t1 = \<lparr>tname = name_ctr tr, shape = map (\<lambda>dim. shape t ! nat dim) p,
                      device = device t, dtype = dtype t\<rparr>"
  obtain st1 tr1 where 1: "transpose_prim (TensorP t) p st = (Inr (TensorP t1), st1)"
    and 2: "active st1 = Some tr1"
    using transpose_success [OF assms] unfolding t1_def by blast
  have len: "length p = ndim t" using assms(2) by (simp add: check_valid_permutation_def)
  then have r: "ndim t1 = ndim t" by (simp add: ndim_def t1_def)
  have v: "check_valid_permutation (ndim t1) (inverse_permutation p)"
    unfolding r by (rule inverse_permutation_valid [OF assms(2)])
  obtain st2 tr2 where 3: "transpose_prim (TensorP t1) (inverse_permutation p) st1 =
      (Inr (TensorP \<lparr>tname = name_ctr tr1,
                      shape = map (\<lambda>dim. shape t1 ! nat dim) (inverse_permutation p),
                      device = device t1, dtype = dtype t1\<rparr>), st2)"
    using transpose_success [OF 2 v] by blast
  have 4: "map (\<lambda>dim. shape t1 ! nat dim) (inverse_permutation p) = shape t"
    unfolding t1_def using transpose_inverse_shape [OF assms(2), of "shape t"]
    by (simp add: ndim_def)
  show ?thesis
    using 1 3 4
    by (intro exI [of _ t1] exI [of _ st1]
        exI [of _ "\<lparr>tname = name_ctr tr1,
                      shape = map (\<lambda>dim. shape t1 ! nat dim) (inverse_permutation p),
                      device = device t1, dtype = dtype t1\<rparr>"])
      (simp add: t1_def)
qed

theorem transpose_shape_and_inverse_witness:
  "\<exists>t1 st1 t2.
      transpose_prim (TensorP (ex_tensor 0 [2, 3, 5] float32)) [2, 0, 1] ex_state
        = (Inr (TensorP t1), st1)
    \<and> shape t1 = [5, 2, 3]
    \<and> inverse_permutation [2, 0, 1] = [1, 2, 0]
    \<and> fst (transpose_prim (TensorP t1) [1, 2, 0] st1) = Inr (TensorP t2)
    \<and> shape t2 = [2, 3, 5]"
proof -
  have a: "active ex_state = Some \<lparr>symbols = [], name_ctr = 2\<rparr>"
    by (simp add: ex_state_def)
  have u: "[0..<3] = [0, 1, 2]" by (simp add: upt_rec)
  have b: "check_valid_permutation (ndim (ex_tensor 0 [2, 3, 5] float32)) [2, 0, 1]"
    by (simp add: check_valid_permutation_def ndim_def ex_tensor_def u)
  have c: "inverse_permutation [2, 0, 1] = [1, 2, 0]"
    by (simp add: inverse_permutation_def u)
  show ?thesis
    using transpose_shape_and_inverse [OF a b]
    by (simp add: c ex_tensor_def)
qed

section \<open>Python's true division on dimension lengths\<close>

lemma round_half_even_bounds:
  assumes "0 < d"
  shows "N div d \<le> round_half_even N d" and "2 * (round_half_even N d * d) \<le> 2 * N + d"
proof -
  define Q R where "Q = N div d" and "R = N mod d"
  have N: "N = Q * d + R" by (simp add: Q_def R_def)
  have R: "0 \<le> R" "R < d" using assms by (simp_all add: R_def)
  have m: "round_half_even N d = Q \<or> (round_half_even N d = Q + 1 \<and> d \<le> 2 * R)"
    by (auto simp: round_half_even_def Let_def Q_def R_def)
  show "N div d \<le> round_half_even N d" using m by (auto simp: Q_def)
  show "2 * (round_half_even N d * d) \<le> 2 * N + d"
    using m R assms by (auto simp: N algebra_simps)
qed

lemma bitlen_pos_bounds:
  assumes "0 < x"
  shows "2 ^ nat (bitlen x - 1) \<le> x" and "x < 2 ^ nat (bitlen x)" and "1 \<le> bitlen x"
  using bitlen_bounds [OF assms] assms by (auto simp: bitlen_alt_def)

lemma bitlen_mono: "0 < x \<Longrightarrow> x \<le> y \<Longrightarrow> bitlen x \<le> bitlen y"
  by (simp add: bitlen_def floorlog_mono)

lemma binary_exponent_le:
  assumes "0 < n" and "n < 2 ^ 53" and "1 \<le> d"
  shows "binary_exponent n d \<le> 52"
proof -
  have "bitlen n \<le> 53"
  proof (rule ccontr)
    assume "\<not> bitlen n \<le> 53"
    then have "54 \<le> bitlen n" by simp
    then have "(53::nat) \<le> nat (bitlen n - 1)" by simp
    then have "(2::int) ^ 53 \<le> 2 ^ nat (bitlen n - 1)"
      by (intro power_increasing) simp_all
    with bitlen_pos_bounds(1) [OF assms(1)] assms(2) show False by simp
  qed
  moreover have "1 \<le> bitlen d" using assms(3) by (intro bitlen_pos_bounds(3)) simp
  ultimately have "bitlen n - bitlen d \<le> 52" by simp
  then show ?thesis by (auto simp: binary_exponent_def Let_def)
qed

lemma binary_exponent_small:
  assumes "0 < n" and "n < d"
  shows "binary_exponent n d \<le> - 1"
proof -
  have "bitlen n \<le> bitlen d" using assms by (intro bitlen_mono) simp_all
  then consider "bitlen n - bitlen d = 0" | "bitlen n - bitlen d < 0" by linarith
  then show ?thesis
  proof cases
    case 1
    then show ?thesis using assms by (simp add: binary_exponent_def Let_def)
  next
    case 2
    then show ?thesis by (auto simp: binary_exponent_def Let_def)
  qed
qed

lemma binary_exponent_large:
  assumes "0 < d" and "d \<le> n"
  shows "0 \<le> binary_exponent n d" and "d * 2 ^ nat (binary_exponent n d) \<le> n"
proof -
  define k where "k = bitlen n - bitlen d"
  have n: "0 < n" using assms by simp
  have k0: "0 \<le> k" unfolding k_def using bitlen_mono [OF assms] by simp
  show "0 \<le> binary_exponent n d" "d * 2 ^ nat (binary_exponent n d) \<le> n"
  proof -
    consider (a) "d * 2 ^ nat k \<le> n" | (b) "\<not> d * 2 ^ nat k \<le> n" by blast
    then have "0 \<le> binary_exponent n d \<and> d * 2 ^ nat (binary_exponent n d) \<le> n"
    proof cases
      case a
      then have "binary_exponent n d = k"
        using k0 by (simp add: binary_exponent_def Let_def k_def)
      then show ?thesis using a k0 by simp
    next
      case b
      then have e: "binary_exponent n d = k - 1"
        using k0 by (simp add: binary_exponent_def Let_def k_def)
      have "k \<noteq> 0" using b assms by (auto simp: )
      then have k1: "1 \<le> k" using k0 by simp
      have bd: "1 \<le> bitlen d" by (rule bitlen_pos_bounds(3) [OF assms(1)])
      have "d * 2 ^ nat (k - 1) \<le> 2 ^ nat (bitlen d) * 2 ^ nat (k - 1)"
        using bitlen_pos_bounds(2) [OF assms(1)] by (intro mult_right_mono) simp_all
      also have "\<dots> = 2 ^ (nat (bitlen d) + nat (k - 1))" by (simp add: power_add)
      also have "nat (bitlen d) + nat (k - 1) = nat (bitlen n - 1)"
        using k1 bd by (simp add: k_def nat_add_distrib [symmetric])
      also have "(2::int) ^ nat (bitlen n - 1) \<le> n" by (rule bitlen_pos_bounds(1) [OF n])
      finally have "d * 2 ^ nat (k - 1) \<le> n" .
      then show ?thesis using e k1 by simp
    qed
    then show "0 \<le> binary_exponent n d" "d * 2 ^ nat (binary_exponent n d) \<le> n" by simp_all
  qed
qed

lemma floor_truediv_exact:
  assumes "0 \<le> n" and "n < 2 ^ 53" and "1 \<le> d"
  shows "floor_truediv n d = Inr (n div d)"
proof (cases "n = 0")
  case True
  then show ?thesis by (simp add: floor_truediv_def)
next
  case False
  then have n: "0 < n" using assms(1) by simp
  have d: "0 < d" using assms(3) by simp
  define e where "e = max (binary_exponent n d) (- 1022)"
  define s where "s = nat (52 - e)"
  define T where "T = (2::int) ^ s"
  define m where "m = round_half_even (n * T) d"
  define k where "k = n div d"
  define r where "r = n mod d"
  have e52: "e \<le> 52"
    using binary_exponent_le [OF n assms(2,3)] by (simp add: e_def)
  have T: "1 \<le> T" by (simp add: T_def)
  have ft: "floor_truediv n d = Inr (m div T)"
    using False e52
    by (simp add: floor_truediv_def Let_def e_def [symmetric] s_def [symmetric] T_def m_def)
  have nk: "n = k * d + r" and r: "0 \<le> r" "r < d"
    using d by (simp_all add: k_def r_def)
  have k0: "0 \<le> k" using assms(1) d by (simp add: k_def pos_imp_zdiv_nonneg_iff)
  have key: "d < 2 * T * (d - r)"
  proof (cases "n < d")
    case True
    then have rn: "r = n" using assms(1) by (simp add: r_def)
    have "e \<le> - 1" using binary_exponent_small [OF n True] by (simp add: e_def)
    then have "53 \<le> s" by (simp add: s_def)
    then have "(2::int) ^ 53 \<le> T" unfolding T_def by (intro power_increasing) simp_all
    then have T54: "2 ^ 54 \<le> 2 * T" by simp
    show ?thesis
    proof (cases "d < 2 ^ 54")
      case True
      have "2 * T * 1 \<le> 2 * T * (d - r)"
        using r T by (intro mult_left_mono) simp_all
      then have "2 * T \<le> 2 * T * (d - r)" by (simp only: mult_1_right)
      with True T54 show ?thesis by linarith
    next
      case False
      then have "2 * n < d" using assms(2) by simp
      then have dn: "d < 2 * (d - r)" by (simp add: rn)
      have "1 * (2 * (d - r)) \<le> T * (2 * (d - r))"
        using T r by (intro mult_right_mono) simp_all
      then have "2 * (d - r) \<le> 2 * T * (d - r)"
        by (simp only: mult_1 mult.assoc mult.left_commute)
      with dn show ?thesis by linarith
    qed
  next
    case False
    then have dn: "d \<le> n" by simp
    have be: "0 \<le> binary_exponent n d" "d * 2 ^ nat (binary_exponent n d) \<le> n"
      using binary_exponent_large [OF d dn] by simp_all
    then have ee: "e = binary_exponent n d" by (simp add: e_def)
    have h: "nat e + (s + 1) = 53" using be(1) e52 by (simp add: s_def ee)
    have "(2::int) ^ 53 = 2 ^ (nat e + (s + 1))" by (simp only: h)
    also have "\<dots> = 2 ^ nat e * (2 * T)" by (simp only: power_add T_def power_one_right mult.commute)
    finally have p53: "(2::int) ^ 53 = 2 ^ nat e * (2 * T)" .
    have "d * 2 ^ nat e \<le> n" using be(2) by (simp only: ee)
    also have "n < 2 ^ 53" by (rule assms(2))
    finally have "d * 2 ^ nat e < 2 ^ nat e * (2 * T)" by (simp only: p53)
    then have "2 ^ nat e * d < 2 ^ nat e * (2 * T)" by (simp add: mult.commute)
    then have d2T: "d < 2 * T" by (simp only: mult_less_cancel_left_pos zero_less_power zero_less_numeral)
    have "2 * T * 1 \<le> 2 * T * (d - r)"
      using r T by (intro mult_left_mono) simp_all
    then have "2 * T \<le> 2 * T * (d - r)" by (simp only: mult_1_right)
    with d2T show ?thesis by linarith
  qed
  have lower: "k * T \<le> m"
  proof -
    have "k * T * d \<le> n * T"
      using r T by (simp add: nk algebra_simps)
    then have "(k * T * d) div d \<le> (n * T) div d" using d by (intro zdiv_mono1) simp_all
    then have "k * T \<le> (n * T) div d" using d by simp
    also have "\<dots> \<le> m" unfolding m_def by (rule round_half_even_bounds(1) [OF d])
    finally show ?thesis .
  qed
  have upper: "m < (k + 1) * T"
  proof -
    have "2 * (m * d) \<le> 2 * (n * T) + d"
      unfolding m_def by (rule round_half_even_bounds(2) [OF d])
    also have "\<dots> = 2 * (k * T * d) + (2 * T * r + d)" by (simp add: nk algebra_simps)
    also have "\<dots> < 2 * (k * T * d) + 2 * T * d" using key by (simp add: algebra_simps)
    also have "\<dots> = 2 * (((k + 1) * T) * d)" by (simp add: algebra_simps)
    finally have "m * d < ((k + 1) * T) * d" by simp
    then show ?thesis using d by (simp only: mult_less_cancel_right_pos)
  qed
  have "m div T = k"
  proof (rule int_div_pos_eq)
    show "m = T * k + (m - k * T)" by (simp add: mult.commute)
    show "0 \<le> m - k * T" using lower by simp
    show "m - k * T < T" using upper by (simp add: algebra_simps)
  qed
  then show ?thesis by (simp add: ft k_def)
qed

section \<open>Properties of slice\<close>

lemma list_all_upt_Suc:
  "list_all P [0..<Suc n] \<longleftrightarrow> P 0 \<and> list_all (\<lambda>i. P (Suc i)) [0..<n]"
proof -
  have "(\<forall>i<Suc n. P i) \<longleftrightarrow> P 0 \<and> (\<forall>i<n. P (Suc i))"
    by (auto simp: less_Suc_eq_0_disj)
  then show ?thesis
    by (simp only: list_all_iff set_upt atLeastLessThan_iff Ball_def le0 simp_thms)
qed

lemma slice_dims_eq:
  assumes "length starts = length stops" and "length stops = length shapes"
    and "length shapes = length strides"
    and "list_all (\<lambda>l. l < 2 ^ 53) shapes"
  shows "slice_dims starts stops shapes strides =
     (if list_all (\<lambda>i. 0 \<le> starts ! i \<and> starts ! i \<le> shapes ! i
                       \<and> starts ! i \<le> stops ! i \<and> stops ! i \<le> shapes ! i
                       \<and> 1 \<le> strides ! i) [0..<length shapes]
      then Inr (map (\<lambda>i. (stops ! i - starts ! i) div strides ! i) [0..<length shapes])
      else Inl BoundsErr)"
  using assms
proof (induction starts stops shapes strides rule: list_induct4)
  case Nil
  show ?case by simp
next
  case (Cons x xs y ys z zs w ws)
  have small: "list_all (\<lambda>l. l < 2 ^ 53) zs" and z: "z < 2 ^ 53"
    using Cons.prems by simp_all
  note IH = Cons.IH [OF small]
  show ?case
  proof (cases "0 \<le> x \<and> x \<le> z \<and> x \<le> y \<and> y \<le> z \<and> 1 \<le> w")
    case False
    then have "slice_dims (x # xs) (y # ys) (z # zs) (w # ws) = Inl BoundsErr"
      by auto
    moreover have "\<not> list_all (\<lambda>i. 0 \<le> (x # xs) ! i \<and> (x # xs) ! i \<le> (z # zs) ! i
                       \<and> (x # xs) ! i \<le> (y # ys) ! i \<and> (y # ys) ! i \<le> (z # zs) ! i
                       \<and> 1 \<le> (w # ws) ! i) [0..<length (z # zs)]"
      using False by (simp only: length_Cons list_all_upt_Suc nth_Cons_0) blast
    ultimately show ?thesis by (simp only: if_False)
  next
    case True
    then have "floor_truediv (y - x) w = Inr ((y - x) div w)"
      using z by (intro floor_truediv_exact) simp_all
    then have "slice_dims (x # xs) (y # ys) (z # zs) (w # ws) =
        (case slice_dims xs ys zs ws of Inl e \<Rightarrow> Inl e | Inr new_shape \<Rightarrow> Inr ((y - x) div w # new_shape))"
      using True by simp
    then show ?thesis
      using True
      by (simp add: IH list_all_upt_Suc map_upt_Suc del: upt_Suc)
  qed
qed

lemma slice_meta_tensor:
  assumes "active st = Some tr" and "list_all (\<lambda>l. l < 2 ^ 53) (shape t)"
  shows "slice_meta (TensorP t) starts stops strides st =
     (if slice_in_bounds (shape t) starts stops (strides_or_default t strides)
      then (Inr (TensorP \<lparr>tname = name_ctr tr,
                           shape = slice_lengths starts stops (strides_or_default t strides),
                           device = device t, dtype = dtype t\<rparr>),
            st\<lparr>active := Some (tr\<lparr>name_ctr := Suc (name_ctr tr)\<rparr>)\<rparr>)
      else (Inl BoundsErr, st))"
proof -
  define strides' where "strides' = strides_or_default t strides"
  have eq: "slice_meta (TensorP t) starts stops strides st =
     (if \<not> (ndim t = length starts \<and> length starts = length stops \<and> length stops = length strides')
      then (Inl BoundsErr, st)
      else (case slice_dims starts stops (shape t) strides' of
               Inl e \<Rightarrow> (Inl e, st)
             | Inr new_shape \<Rightarrow>
                (case make_proxy_name st of
                   (Inl e, st1) \<Rightarrow> (Inl e, st1)
                 | (Inr proxy_name, st1) \<Rightarrow>
                     (Inr (TensorP (TensorProxy_like t proxy_name (Some new_shape) None)), st1))))"
    unfolding slice_tensor_eq strides'_def strides_or_default_def ..
  show ?thesis
  proof (cases "ndim t = length starts \<and> length starts = length stops \<and> length stops = length strides'")
    case False
    then have "\<not> slice_in_bounds (shape t) starts stops strides'"
      by (auto simp: slice_in_bounds_def ndim_def)
    with False show ?thesis
      unfolding eq strides'_def [symmetric] by (simp only: if_True if_False not_False_eq_True)
  next
    case True
    then have l: "length starts = length stops" "length stops = length (shape t)"
      "length (shape t) = length strides'" "length starts = length (shape t)"
      by (simp_all add: ndim_def)
    have sd: "slice_dims starts stops (shape t) strides' =
       (if slice_in_bounds (shape t) starts stops strides'
        then Inr (slice_lengths starts stops strides') else Inl BoundsErr)"
      unfolding slice_dims_eq [OF l(1,2,3) assms(2)] slice_in_bounds_def slice_lengths_def
      using l by simp
    show ?thesis
      unfolding eq strides'_def [symmetric] sd
      using True assms(1)
      by (simp add: make_proxy_name_def get_trace_def TensorProxy_like_def)
  qed
qed

text \<open>
  Where the lengths of the dimensions are below \<open>2 ^ 53\<close> the double is exact enough and
  the code does what the spec says of \<^verbatim>\<open>slice\<close>: in an active trace the call succeeds
  exactly when the three sequences have one entry per dimension of \<open>a\<close> and, in every
  dimension, \<open>0 \<le> start \<le> shape\<close>, \<open>start \<le> stop \<le> shape\<close> and \<open>1 \<le> stride\<close>; the
  result is then a tensor proxy whose dimensions have the lengths
  \<open>(stop - start) div stride\<close>, rounded down, with the device and dtype of \<open>a\<close>, and any
  violation fails with a bounds error.
\<close>

theorem slice_succeeds_iff_in_bounds:
  assumes "active st = Some tr" and "list_all (\<lambda>l. l < 2 ^ 53) (shape t)"
  shows "fst (slice_prim (TensorP t) starts stops strides st) =
     (if slice_in_bounds (shape t) starts stops (strides_or_default t strides)
      then Inr (TensorP \<lparr>tname = name_ctr tr,
                          shape = slice_lengths starts stops (strides_or_default t strides),
                          device = device t, dtype = dtype t\<rparr>)
      else Inl BoundsErr)"
proof (cases "slice_in_bounds (shape t) starts stops (strides_or_default t strides)")
  case True
  show ?thesis
    unfolding slice_prim_def make_prim_def
    by (rule trans [OF fst_eval_meta [where sta = "st\<lparr>active := Some (tr\<lparr>name_ctr := Suc (name_ctr tr)\<rparr>)\<rparr>"]])
      (simp_all add: slice_meta_tensor [OF assms] True)
next
  case False
  show ?thesis
    unfolding slice_prim_def make_prim_def
    by (rule trans [OF fst_eval_meta [where sta = st]])
      (simp_all add: slice_meta_tensor [OF assms] False assms(1))
qed

theorem slice_succeeds_iff_in_bounds_witness:
  "fst (slice_prim (TensorP (ex_tensor 0 [4] float32)) [0] [4] (Some [2]) ex_state)
     = Inr (TensorP (ex_tensor 2 [2] float32))
   \<and> fst (slice_prim (TensorP (ex_tensor 0 [4] float32)) [1] [4] None ex_state)
     = Inr (TensorP (ex_tensor 2 [3] float32))
   \<and> fst (slice_prim (TensorP (ex_tensor 0 [4] float32)) [0] [5] None ex_state) = Inl BoundsErr
   \<and> fst (slice_prim (TensorP (ex_tensor 0 [4] float32)) [0] [4] (Some [0]) ex_state) = Inl BoundsErr"
proof -
  have a: "active ex_state = Some \<lparr>symbols = [], name_ctr = 2\<rparr>"
    by (simp add: ex_state_def)
  have b: "list_all (\<lambda>l. l < 2 ^ 53) (shape (ex_tensor 0 [4] float32))"
    by (simp add: ex_tensor_def)
  show ?thesis
    using slice_succeeds_iff_in_bounds [OF a b, of "[0]" "[4]" "Some [2]"]
      slice_succeeds_iff_in_bounds [OF a b, of "[1]" "[4]" None]
      slice_succeeds_iff_in_bounds [OF a b, of "[0]" "[5]" None]
      slice_succeeds_iff_in_bounds [OF a b, of "[0]" "[4]" "Some [0]"]
    by (simp add: slice_in_bounds_def slice_lengths_def strides_or_default_def ndim_def ex_tensor_def)
qed

lemma floor_truediv_large: "floor_truediv 9007199254740993 1 = Inr 9007199254740992"
  by code_simp

text \<open>
  Claim C8. The claim gives every dimension of the result the length
  \<open>(stop - start) div stride\<close>, rounded down, and the code means to compute it, but
  \<^verbatim>\<open>math.floor((stop - start) / stride)\<close> divides in floating point. For a dimension of
  length \<open>2 ^ 53 + 1\<close>, slicing all of it with stride 1 is within bounds and the length
  should be \<open>2 ^ 53 + 1\<close>; the quotient rounds to the double \<open>2 ^ 53\<close> and the result has
  that length.
\<close>

theorem slice_length_through_float:
  "fst (slice_prim (TensorP (ex_tensor 0 [9007199254740993] float32)) [0] [9007199254740993] None
         ex_state)
     = Inr (TensorP (ex_tensor 2 [9007199254740992] float32))
   \<and> slice_in_bounds [9007199254740993] [0] [9007199254740993] [1]
   \<and> slice_lengths [0] [9007199254740993] [1] = [9007199254740993]"
  by (simp add: slice_prim_def make_prim_def eval_meta_and_record_symbol_fn_def slice_meta_def
      make_symbol_def get_trace_def make_proxy_name_def add_symbol_def TensorProxy_like_def
      floor_truediv_large slice_in_bounds_def slice_lengths_def ndim_def ex_tensor_def ex_state_def)

section \<open>Failed calls\<close>

lemma snd_make_proxy_name: "snd (make_proxy_name st) = name_counter_advanced st"
  by (simp add: make_proxy_name_def get_trace_def name_counter_advanced_def split: option.split)

lemma make_proxy_name_fails:
  "fst (make_proxy_name st) = Inl e \<Longrightarrow> active st = None"
  by (simp add: make_proxy_name_def get_trace_def split: option.splits)

lemma make_proxy_name_succeeds:
  "fst (make_proxy_name st) = Inr n \<Longrightarrow> active (snd (make_proxy_name st)) \<noteq> None"
  by (simp add: make_proxy_name_def get_trace_def split: option.splits)












lemma slice_meta_form:
  "\<exists>pre. \<forall>st. slice_meta a s e' strides st =
     (case pre of
        Inl e \<Rightarrow> (Inl e, st)
      | Inr new_shape \<Rightarrow>
         (case make_proxy_name st of
            (Inl e, st1) \<Rightarrow> (Inl e, st1)
          | (Inr proxy_name, st1) \<Rightarrow> (Inr (TensorP (new_shape proxy_name)), st1)))"
proof (cases a)
  case (TensorP t)
  define strides' where "strides' = (case strides of None \<Rightarrow> replicate (ndim t) 1 | Some x \<Rightarrow> x)"
  define ok where "ok \<longleftrightarrow> ndim t = length s \<and> length s = length e' \<and> length e' = length strides'"
  define sd where "sd = slice_dims s e' (shape t) strides'"
  have eq: "slice_meta a s e' strides st =
     (if \<not> ok then (Inl BoundsErr, st)
      else (case sd of
               Inl e \<Rightarrow> (Inl e, st)
             | Inr new_shape \<Rightarrow>
                (case make_proxy_name st of
                   (Inl e, st1) \<Rightarrow> (Inl e, st1)
                 | (Inr proxy_name, st1) \<Rightarrow>
                     (Inr (TensorP (TensorProxy_like t proxy_name (Some new_shape) None)), st1))))" for st
    unfolding TensorP slice_tensor_eq ok_def sd_def strides'_def ..
  show ?thesis
  proof (cases ok)
    case False
    then show ?thesis
      by (intro exI [of _ "Inl BoundsErr"]) (simp add: eq)
  next
    case True
    show ?thesis
    proof (cases sd)
      case (Inl x)
      then show ?thesis using True by (intro exI [of _ "Inl x"]) (simp add: eq)
    next
      case (Inr x)
      then show ?thesis
        using True
        by (intro exI [of _ "Inr (\<lambda>proxy_name. TensorProxy_like t proxy_name (Some x) None)"])
          (simp add: eq)
    qed
  qed
next
  case (NumberP x)
  then show ?thesis
    by (intro exI [of _ "Inl (if strides = None then PyAttributeError else TypeErr)"])
      (simp add: slice_nontensor)
next
  case (Num x)
  then show ?thesis
    by (intro exI [of _ "Inl (if strides = None then PyAttributeError else TypeErr)"])
      (simp add: slice_nontensor)
next
  case (ListV x)
  then show ?thesis
    by (intro exI [of _ "Inl (if strides = None then PyAttributeError else TypeErr)"])
      (simp add: slice_nontensor)
next
  case (TupleV x)
  then show ?thesis
    by (intro exI [of _ "Inl (if strides = None then PyAttributeError else TypeErr)"])
      (simp add: slice_nontensor)
next
  case (StrV x)
  then show ?thesis
    by (intro exI [of _ "Inl (if strides = None then PyAttributeError else TypeErr)"])
      (simp add: slice_nontensor)
next
  case NoneV
  then show ?thesis
    by (intro exI [of _ "Inl (if strides = None then PyAttributeError else TypeErr)"])
      (simp add: slice_nontensor)
qed




















lemma mints_at_most_once_unary:
  "mints_at_most_once (elementwise_unary_meta a name' kind handler)"
  unfolding mints_at_most_once_def snd_make_proxy_name [symmetric]
  by (simp add: elementwise_unary_meta_def Let_def split: sum.split prod.split)

lemma mints_at_most_once_reshape: "mints_at_most_once (reshape_meta a s)"
  unfolding mints_at_most_once_def snd_make_proxy_name [symmetric]
  by (simp add: reshape_meta_def Let_def split: pyobj.split sum.split prod.split)

lemma mints_at_most_once_transpose: "mints_at_most_once (transpose_meta a p)"
  unfolding mints_at_most_once_def snd_make_proxy_name [symmetric]
  by (simp add: transpose_meta_def Let_def split: pyobj.split sum.split prod.split)

lemma mints_at_most_once_matmul: "mints_at_most_once (matmul_meta a b)"
  unfolding mints_at_most_once_def snd_make_proxy_name [symmetric]
  by (simp add: matmul_meta_def Let_def split: pyobj.split sum.split prod.split)

lemma mints_at_most_once_embedding: "mints_at_most_once (embedding_meta a w mn)"
  unfolding mints_at_most_once_def snd_make_proxy_name [symmetric]
  by (simp add: embedding_meta_def Let_def split: pyobj.split sum.split prod.split)

lemma mints_at_most_once_slice: "mints_at_most_once (slice_meta a s e' strides)"
proof -
  obtain pre where eq: "\<And>st. slice_meta a s e' strides st =
     (case pre of
        Inl e \<Rightarrow> (Inl e, st)
      | Inr new_shape \<Rightarrow>
         (case make_proxy_name st of
            (Inl e, st1) \<Rightarrow> (Inl e, st1)
          | (Inr proxy_name, st1) \<Rightarrow> (Inr (TensorP (new_shape proxy_name)), st1)))"
    using slice_meta_form [of a s e' strides] by blast
  show ?thesis
    unfolding mints_at_most_once_def snd_make_proxy_name [symmetric] eq
    by (cases pre) (simp_all split: prod.split sum.split)
qed



end
